theory Spec2Isabelle
  imports Complex_Main "HOL-Library.Sublist"
begin

section \<open>Strings and the regular expressions of the viewer\<close>

text \<open>
  A string is a list of characters, one per code unit. The character classes below are
  the ones the regular expressions of the source use. With the flag \<open>i\<close> and without the
  flag \<open>u\<close>, a class such as \<open>[a-z0-9_]\<close> matches the ASCII letters of both cases, the
  digits and the underscore, and no character outside ASCII. \<open>lowerChar\<close> lowers the
  ASCII letters and leaves every other character alone: \<open>normalizeKey\<close> calls
  \<open>toLowerCase\<close> on what is left after all other characters are removed, and the
  extension test of \<open>loadTexture\<close> looks at an ASCII suffix.
\<close>

definition asciiUpper :: string where
  "asciiUpper = ''ABCDEFGHIJKLMNOPQRSTUVWXYZ''"

definition asciiLower :: string where
  "asciiLower = ''abcdefghijklmnopqrstuvwxyz''"

definition isDigit :: "char \<Rightarrow> bool" where
  "isDigit c = (c \<in> set ''0123456789'')"

definition isAlnum :: "char \<Rightarrow> bool" where
  "isAlnum c = (c \<in> set asciiLower \<or> c \<in> set asciiUpper \<or> isDigit c)"

definition isWordChar :: "char \<Rightarrow> bool" where
  "isWordChar c = (isAlnum c \<or> c = CHR ''_'')"

definition isSpace :: "char \<Rightarrow> bool" where
  "isSpace c = (c \<in> set [CHR 0x09, CHR 0x0A, CHR 0x0B, CHR 0x0C, CHR 0x0D, CHR 0x20, CHR 0xA0])"

definition lowerChar :: "char \<Rightarrow> char" where
  "lowerChar c = (case map_of (zip asciiUpper asciiLower) c of Some l \<Rightarrow> l | None \<Rightarrow> c)"

definition toLowerCase :: "string \<Rightarrow> string" where
  "toLowerCase v = map lowerChar v"

text \<open>\<open>value.replace(/[^a-z0-9_]/gi, '').toLowerCase()\<close>\<close>

definition normalizeKey :: "string \<Rightarrow> string" where
  "normalizeKey v = toLowerCase (filter isWordChar v)"

definition trim :: "string \<Rightarrow> string" where
  "trim v = rev (dropWhile isSpace (rev (dropWhile isSpace v)))"

text \<open>
  \<open>/mat[a-z0-9]+/i\<close> anchored at the head of a string: the three letters in either
  case, then the longest run of letters and digits, which must not be empty.
\<close>

definition matchVariantAt :: "string \<Rightarrow> string option" where
  "matchVariantAt s =
     (case s of
        c1 # c2 # c3 # rest \<Rightarrow>
          if (c1 = CHR ''m'' \<or> c1 = CHR ''M'') \<and> (c2 = CHR ''a'' \<or> c2 = CHR ''A'')
             \<and> (c3 = CHR ''t'' \<or> c3 = CHR ''T'') \<and> takeWhile isAlnum rest \<noteq> []
          then Some ([c1, c2, c3] @ takeWhile isAlnum rest)
          else None
      | _ \<Rightarrow> None)"

text \<open>\<open>value.match(...)\<close>: the match at the leftmost position that has one.\<close>

fun firstVariantMatch :: "string \<Rightarrow> string option" where
  "firstVariantMatch [] = None"
| "firstVariantMatch (c # cs) =
     (case matchVariantAt (c # cs) of
        Some m \<Rightarrow> Some m
      | None \<Rightarrow> firstVariantMatch cs)"

text \<open>\<open>None\<close> is \<open>null\<close> or \<open>undefined\<close>; the empty string is falsy as well.\<close>

definition extractVariantName :: "string option \<Rightarrow> string option" where
  "extractVariantName v =
     (case v of
        None \<Rightarrow> None
      | Some s \<Rightarrow> if s = [] then None else firstVariantMatch s)"

section \<open>The scene graph\<close>

datatype object3d = Object3D (name: string) (parent: "object3d option")

text \<open>The names met on the walk from a node to the root, the node's own name first.\<close>

fun ancestry :: "object3d \<Rightarrow> string list" where
  "ancestry (Object3D n None) = [n]"
| "ancestry (Object3D n (Some p)) = n # ancestry p"

section \<open>The FBX build: resolution against the texture manifest\<close>

datatype TextureChannel = BaseColor | Normal | ORM

type_synonym ChannelFiles = "TextureChannel \<rightharpoonup> string"

type_synonym PartEntry = "(string \<times> ChannelFiles) list"

text \<open>
  The manifest is the imported JSON file. It is a parameter of every function that reads
  it, given as the list of its entries in the order in which \<open>Object.keys\<close> enumerates
  them.
\<close>

type_synonym TextureManifest = "(string \<times> PartEntry) list"

definition objectKeys :: "(string \<times> 'v) list \<Rightarrow> string list" where
  "objectKeys obj = map fst obj"

text \<open>The pairs are \<open>(original, normalized)\<close>.\<close>

definition manifestPartMeta :: "TextureManifest \<Rightarrow> (string \<times> string) list" where
  "manifestPartMeta manifestData = map (\<lambda>key. (key, normalizeKey key)) (objectKeys manifestData)"

fun findPartKeyFromObject :: "TextureManifest \<Rightarrow> object3d option \<Rightarrow> string option" where
  "findPartKeyFromObject manifestData None = None"
| "findPartKeyFromObject manifestData (Some (Object3D nm par)) =
     (if trim nm \<noteq> [] then
        (case find (\<lambda>(original, normalized).
                     prefix normalized (normalizeKey (trim nm))
                     \<or> sublist normalized (normalizeKey (trim nm)))
                   (manifestPartMeta manifestData) of
           Some (original, normalized) \<Rightarrow> Some original
         | None \<Rightarrow> findPartKeyFromObject manifestData par)
      else findPartKeyFromObject manifestData par)"

record ManifestInfo =
  partKey :: string
  textures :: ChannelFiles

text \<open>
  The constant \<open>variantKey\<close> of \<open>resolveManifestInfo\<close>:
  \<open>(variantName && Object.keys(partEntry).find(...)) || Object.keys(partEntry)[0]\<close>,
  with \<open>None\<close> for \<open>undefined\<close>.
\<close>

definition variantKey :: "PartEntry \<Rightarrow> string option \<Rightarrow> string \<Rightarrow> string option" where
  "variantKey partEntry materialName meshName =
     (let variantName =
            (case extractVariantName materialName of
               Some v \<Rightarrow> Some v
             | None \<Rightarrow> extractVariantName (Some meshName));
          found =
            (case variantName of
               None \<Rightarrow> None
             | Some vn \<Rightarrow>
                 if vn = [] then None
                 else find (\<lambda>key. normalizeKey key = normalizeKey vn) (objectKeys partEntry))
      in case found of
           Some key \<Rightarrow> if key \<noteq> [] then Some key else (case objectKeys partEntry of [] \<Rightarrow> None | k # _ \<Rightarrow> Some k)
         | None \<Rightarrow> (case objectKeys partEntry of [] \<Rightarrow> None | k # _ \<Rightarrow> Some k))"

definition resolveManifestInfo ::
  "TextureManifest \<Rightarrow> object3d \<Rightarrow> string option \<Rightarrow> ManifestInfo option" where
  "resolveManifestInfo manifestData mesh materialName =
     (case findPartKeyFromObject manifestData (Some mesh) of
        None \<Rightarrow> None
      | Some pk \<Rightarrow>
          if pk = [] then None
          else
            (case map_of manifestData pk of
               None \<Rightarrow> None
             | Some partEntry \<Rightarrow>
                 (case variantKey partEntry materialName (name mesh) of
                    None \<Rightarrow> None
                  | Some vk \<Rightarrow>
                      if vk = [] then None
                      else
                        (case map_of partEntry vk of
                           None \<Rightarrow> None
                         | Some tex \<Rightarrow> Some \<lparr>partKey = pk, textures = tex\<rparr>))))"

section \<open>Materials and meshes\<close>

text \<open>
  A texture is known by its handle, the identity of the decoded object. A material is a
  record of the parameters the viewer sets or reads; \<open>None\<close> stands for a parameter the
  viewer leaves to the library. \<open>isMeshStandardMaterial\<close> is the outcome of
  \<open>instanceof THREE.MeshStandardMaterial\<close>.
\<close>

type_synonym Texture = nat

datatype MaterialTarget = map_target | normalMap | roughnessMap | metalnessMap | aoMap

record Material =
  material_name :: string
  isMeshStandardMaterial :: bool
  color :: "nat option"
  metalness :: "real option"
  roughness :: "real option"
  envMapIntensity :: "real option"
  normalScale :: "(real \<times> real) option"
  aoMapIntensity :: "real option"
  slots :: "MaterialTarget \<rightharpoonup> Texture"

datatype MeshMaterial = Single Material | Multi "Material list"

record Mesh =
  object :: object3d
  material :: MeshMaterial

text \<open>\<open>new THREE.MeshStandardMaterial({ color: 0x777777, metalness: 0.5, roughness: 0.6 })\<close>\<close>

definition flatDefaultMaterial :: Material where
  "flatDefaultMaterial =
     \<lparr>material_name = [], isMeshStandardMaterial = True, color = Some 0x777777,
      metalness = Some 0.5, roughness = Some 0.6, envMapIntensity = None,
      normalScale = None, aoMapIntensity = None, slots = Map.empty\<rparr>"

text \<open>
  The body of the \<open>try\<close> block of \<open>buildMaterialForMesh\<close> once the texture is there:
  every target of the channel receives the texture, and a channel that feeds \<open>aoMap\<close>
  sets \<open>aoMapIntensity\<close>.
\<close>

definition assignTargets :: "Texture \<Rightarrow> MaterialTarget list \<Rightarrow> Material \<Rightarrow> Material" where
  "assignTargets tex targets candidate =
     (let assigned = foldl (\<lambda>m target. m\<lparr>slots := (slots m)(target \<mapsto> tex)\<rparr>) candidate targets
      in if aoMap \<in> set targets then assigned\<lparr>aoMapIntensity := Some 1\<rparr> else assigned)"

section \<open>The FBX build: materials\<close>

definition textureBasePath_fbx :: string where
  "textureBasePath_fbx = ''https://cdn.rainnnn.com/textures''"

text \<open>The triples are \<open>(suffix, targets, srgb)\<close>.\<close>

definition textureMeta_fbx :: "(TextureChannel \<times> MaterialTarget list \<times> bool option) list" where
  "textureMeta_fbx =
     [(BaseColor, [map_target], Some True),
      (Normal, [normalMap], None),
      (ORM, [aoMap, roughnessMap, metalnessMap], None)]"

definition candidate_fbx :: Material where
  "candidate_fbx =
     \<lparr>material_name = [], isMeshStandardMaterial = True, color = None,
      metalness = Some 1, roughness = Some 1, envMapIntensity = Some 1.2,
      normalScale = None, aoMapIntensity = None, slots = Map.empty\<rparr>"

text \<open>
  \<open>buildMaterialForMesh\<close> awaits one \<open>loadTexture\<close> call per declared channel. The
  parameter \<open>load\<close> gives the outcome of the call made for a channel and a path: the
  texture it resolves to, or \<open>None\<close> when it rejects. The result is the list of the
  calls made, as pairs \<open>(texturePath, srgb)\<close> in the order of \<open>textureMeta\<close>, and the
  material. The channels write disjoint targets, so the order in which the loads settle
  does not show in the material.
\<close>

definition buildChannel_fbx ::
  "ManifestInfo \<Rightarrow> (TextureChannel \<Rightarrow> string \<Rightarrow> Texture option)
     \<Rightarrow> (string \<times> bool) list \<times> Material
     \<Rightarrow> TextureChannel \<times> MaterialTarget list \<times> bool option
     \<Rightarrow> (string \<times> bool) list \<times> Material" where
  "buildChannel_fbx manifestInfo load acc item =
     (case (acc, item) of
        ((calls, candidate), (channel, targets, srgb)) \<Rightarrow>
          (case textures manifestInfo channel of
             None \<Rightarrow> (calls, candidate)
           | Some fileName \<Rightarrow>
               if fileName = [] then (calls, candidate)
               else
                 (let texturePath =
                        textureBasePath_fbx @ ''/'' @ partKey manifestInfo @ ''/'' @ fileName;
                      call = (texturePath, (case srgb of Some b \<Rightarrow> b | None \<Rightarrow> False))
                  in case load channel texturePath of
                       Some tex \<Rightarrow> (calls @ [call], assignTargets tex targets candidate)
                     | None \<Rightarrow> (calls @ [call], candidate))))"

definition buildMaterialForMesh_fbx ::
  "TextureManifest \<Rightarrow> (TextureChannel \<Rightarrow> string \<Rightarrow> Texture option) \<Rightarrow> Mesh \<Rightarrow> string option
     \<Rightarrow> ((string \<times> bool) list \<times> Material) option" where
  "buildMaterialForMesh_fbx manifestData load mesh materialName =
     (case resolveManifestInfo manifestData (object mesh) materialName of
        None \<Rightarrow> None
      | Some manifestInfo \<Rightarrow>
          Some (foldl (buildChannel_fbx manifestInfo load) ([], candidate_fbx) textureMeta_fbx))"

text \<open>
  \<open>applyMaterialsToMesh\<close>, as the new value of \<open>mesh.material\<close>. \<open>loads i\<close> gives the
  outcomes of the loads made for the material at index \<open>i\<close> of an array, \<open>loads 0\<close> those
  for a single material.
\<close>

definition applyMaterialsToMesh_fbx ::
  "TextureManifest \<Rightarrow> (nat \<Rightarrow> TextureChannel \<Rightarrow> string \<Rightarrow> Texture option) \<Rightarrow> Mesh
     \<Rightarrow> MeshMaterial" where
  "applyMaterialsToMesh_fbx manifestData loads mesh =
     (case material mesh of
        Multi materials \<Rightarrow>
          Multi (map (\<lambda>(i, existing).
                        case buildMaterialForMesh_fbx manifestData (loads i) mesh
                               (Some (material_name existing)) of
                          Some (calls, created) \<Rightarrow> created
                        | None \<Rightarrow> existing)
                     (enumerate 0 materials))
      | Single existing \<Rightarrow>
          (case buildMaterialForMesh_fbx manifestData (loads 0) mesh
                  (Some (material_name existing)) of
             Some (calls, created) \<Rightarrow> Single created
           | None \<Rightarrow>
               if \<not> isMeshStandardMaterial existing then Single flatDefaultMaterial
               else Single existing))"

section \<open>The GLB build: part keys and shared textures\<close>

text \<open>\<open>value.replace(/\s+/g, '_')\<close>: every maximal run of whitespace becomes one underscore.\<close>

function replaceWhitespace :: "string \<Rightarrow> string" where
  "replaceWhitespace [] = []"
| "replaceWhitespace (c # cs) =
     (if isSpace c then CHR ''_'' # replaceWhitespace (dropWhile isSpace cs)
      else c # replaceWhitespace cs)"
  by pat_completeness auto
termination
  by (relation "measure length") (auto simp: le_imp_less_Suc length_dropWhile_le)

text \<open>
  \<open>value.replace(/_low\b/g, '')\<close>, scanning from the left: an occurrence of \<open>_low\<close> is
  removed when the string ends after it or the next character is not a word character.
\<close>

function removeLow :: "string \<Rightarrow> string" where
  "removeLow [] = []"
| "removeLow (c # cs) =
     (if prefix ''_low'' (c # cs)
         \<and> (case drop 3 cs of [] \<Rightarrow> True | d # ds \<Rightarrow> \<not> isWordChar d)
      then removeLow (drop 3 cs)
      else c # removeLow cs)"
  by pat_completeness auto
termination
  by (relation "measure length") auto

definition sanitizeName :: "string \<Rightarrow> string" where
  "sanitizeName v = normalizeKey (removeLow (replaceWhitespace v))"

text \<open>\<open>value.split(sep)\<close> for a separator of one character.\<close>

fun split :: "char \<Rightarrow> string \<Rightarrow> string list" where
  "split sep [] = [[]]"
| "split sep (c # cs) =
     (if c = sep then [] # split sep cs
      else (case split sep cs of
              t # ts \<Rightarrow> (c # t) # ts
            | [] \<Rightarrow> [[c]]))"

fun findIndex :: "('a \<Rightarrow> bool) \<Rightarrow> 'a list \<Rightarrow> nat option" where
  "findIndex P [] = None"
| "findIndex P (x # xs) = (if P x then Some 0 else map_option Suc (findIndex P xs))"

text \<open>\<open>/^\d+$/.test(t)\<close>\<close>

definition isNumericToken :: "string \<Rightarrow> bool" where
  "isNumericToken t = (t \<noteq> [] \<and> list_all isDigit t)"

text \<open>The \<open>for\<close> loop of \<open>extractPartKeyFromCandidate\<close>, from index \<open>i\<close> on.\<close>

function collectTokens :: "string list \<Rightarrow> nat \<Rightarrow> string list \<Rightarrow> string list" where
  "collectTokens tokens i collected =
     (if i < length tokens then
        (let token = tokens ! i in
         if token = [] then collectTokens tokens (i + 1) collected
         else if prefix ''mat'' token then collected
         else collectTokens tokens (i + 1) (collected @ [token]))
      else collected)"
  by pat_completeness auto
termination
  by (relation "measure (\<lambda>(tokens, i, collected). length tokens - i)") auto

fun join :: "char \<Rightarrow> string list \<Rightarrow> string" where
  "join sep [] = []"
| "join sep [t] = t"
| "join sep (t # ts) = t @ sep # join sep ts"

text \<open>
  \<open>joined.replace(/_\d+$/, '')\<close>, scanning from the left for the first underscore that
  is followed by digits only, at least one, up to the end of the string.
\<close>

fun removeTrailingNumber :: "string \<Rightarrow> string" where
  "removeTrailingNumber [] = []"
| "removeTrailingNumber (c # cs) =
     (if c = CHR ''_'' \<and> cs \<noteq> [] \<and> list_all isDigit cs then []
      else c # removeTrailingNumber cs)"

definition extractPartKeyFromCandidate :: "string option \<Rightarrow> string option" where
  "extractPartKeyFromCandidate v =
     (case v of
        None \<Rightarrow> None
      | Some s \<Rightarrow>
          if s = [] then None
          else
            (let sanitized = sanitizeName s;
                 tokens = filter (\<lambda>t. t \<noteq> []) (split CHR ''_'' sanitized)
             in case findIndex isNumericToken tokens of
                  None \<Rightarrow> None
                | Some index \<Rightarrow>
                    (let collected = collectTokens tokens index []
                     in if length collected \<ge> 2
                        then Some (removeTrailingNumber (join CHR ''_'' collected))
                        else None)))"

text \<open>The names of the ancestors of a node that are not empty, the parent's first.\<close>

fun ancestorNames :: "object3d option \<Rightarrow> string list" where
  "ancestorNames None = []"
| "ancestorNames (Some (Object3D nm par)) =
     (if nm \<noteq> [] then nm # ancestorNames par else ancestorNames par)"

fun firstPartKey :: "string list \<Rightarrow> string option" where
  "firstPartKey [] = None"
| "firstPartKey (candidate # candidates) =
     (case extractPartKeyFromCandidate (Some candidate) of
        Some part \<Rightarrow> if part \<noteq> [] then Some part else firstPartKey candidates
      | None \<Rightarrow> firstPartKey candidates)"

definition findPartKeyFromObject_glb :: "object3d option \<Rightarrow> string option \<Rightarrow> string option" where
  "findPartKeyFromObject_glb obj materialName =
     (let candidates =
            (case obj of
               Some (Object3D nm par) \<Rightarrow> if nm \<noteq> [] then [nm] else []
             | None \<Rightarrow> [])
            @ (case materialName of
                 Some m \<Rightarrow> if m \<noteq> [] then [m] else []
               | None \<Rightarrow> [])
            @ (case obj of
                 Some (Object3D nm par) \<Rightarrow> ancestorNames par
               | None \<Rightarrow> [])
      in firstPartKey candidates)"

definition variantFileNameMap :: "(string \<times> string) list" where
  "variantFileNameMap =
     [(''matmetal'', ''MatMetal''), (''matpaint'', ''MatPaint''), (''matrubber'', ''matRubber'')]"

definition resolveVariantKey :: "string option \<Rightarrow> string" where
  "resolveVariantKey variant =
     (let normalized = normalizeKey (case variant of Some v \<Rightarrow> v | None \<Rightarrow> [])
      in if normalized \<noteq> [] then normalized else ''matmetal'')"

definition channelName :: "TextureChannel \<Rightarrow> string" where
  "channelName c = (case c of BaseColor \<Rightarrow> ''BaseColor'' | Normal \<Rightarrow> ''Normal'' | ORM \<Rightarrow> ''ORM'')"

definition buildSharedTextureFileName :: "string \<Rightarrow> TextureChannel \<Rightarrow> string" where
  "buildSharedTextureFileName vKey channel =
     (let variantName = (case map_of variantFileNameMap vKey of Some n \<Rightarrow> n | None \<Rightarrow> vKey)
      in ''model_'' @ variantName @ ''_'' @ channelName channel @ ''.ktx2'')"

definition textureBasePath_glb :: string where
  "textureBasePath_glb = ''https://cdn.rainnnn.com/ktx/v3''"

datatype TextureColorSpace = srgb_space | linear_space | none_space

text \<open>The triples are \<open>(suffix, targets, colorSpace)\<close>.\<close>

definition textureMeta_glb ::
  "(TextureChannel \<times> MaterialTarget list \<times> TextureColorSpace option) list" where
  "textureMeta_glb =
     [(BaseColor, [map_target], Some srgb_space),
      (Normal, [normalMap], Some none_space),
      (ORM, [aoMap, roughnessMap, metalnessMap], Some none_space)]"

definition candidate_glb :: Material where
  "candidate_glb =
     \<lparr>material_name = [], isMeshStandardMaterial = True, color = None,
      metalness = Some 1, roughness = Some 1, envMapIntensity = Some 1.2,
      normalScale = Some (1, - 1), aoMapIntensity = None, slots = Map.empty\<rparr>"

text \<open>A call of \<open>loadTexture\<close> in this build: \<open>(path, colorSpace, partKey, variant)\<close>.\<close>

type_synonym LoadCall_glb = "string \<times> TextureColorSpace \<times> string option \<times> string"

text \<open>The constant \<open>variantKey\<close> of \<open>buildMaterialForMesh\<close> in this build.\<close>

definition variantKey_glb :: "Mesh \<Rightarrow> string option \<Rightarrow> string" where
  "variantKey_glb mesh materialName =
     (let pKey = findPartKeyFromObject_glb (Some (object mesh)) materialName;
          variantRaw =
            (case extractVariantName materialName of
               Some v \<Rightarrow> Some v
             | None \<Rightarrow>
                 (case extractVariantName (Some (name (object mesh))) of
                    Some v \<Rightarrow> Some v
                  | None \<Rightarrow> extractVariantName pKey))
      in resolveVariantKey variantRaw)"

definition buildChannel_glb ::
  "string option \<Rightarrow> string \<Rightarrow> (TextureChannel \<Rightarrow> string \<Rightarrow> Texture option)
     \<Rightarrow> LoadCall_glb list \<times> Material
     \<Rightarrow> TextureChannel \<times> MaterialTarget list \<times> TextureColorSpace option
     \<Rightarrow> LoadCall_glb list \<times> Material" where
  "buildChannel_glb pKey vKey load acc item =
     (case (acc, item) of
        ((calls, candidate), (channel, targets, colorSpace)) \<Rightarrow>
          (let variantLabel = (case map_of variantFileNameMap vKey of Some n \<Rightarrow> n | None \<Rightarrow> vKey);
               fileName = buildSharedTextureFileName vKey channel;
               texturePath = textureBasePath_glb @ ''/'' @ fileName;
               call = (texturePath, (case colorSpace of Some cs \<Rightarrow> cs | None \<Rightarrow> linear_space),
                       pKey, variantLabel)
           in case load channel texturePath of
                Some tex \<Rightarrow> (calls @ [call], assignTargets tex targets candidate)
              | None \<Rightarrow> (calls @ [call], candidate)))"

definition buildMaterialForMesh_glb ::
  "(TextureChannel \<Rightarrow> string \<Rightarrow> Texture option) \<Rightarrow> Mesh \<Rightarrow> string option
     \<Rightarrow> (LoadCall_glb list \<times> Material) option" where
  "buildMaterialForMesh_glb load mesh materialName =
     (let pKey = findPartKeyFromObject_glb (Some (object mesh)) materialName;
          vKey = variantKey_glb mesh materialName
      in Some (foldl (buildChannel_glb pKey vKey load) ([], candidate_glb) textureMeta_glb))"

definition applyMaterialsToMesh_glb ::
  "(nat \<Rightarrow> TextureChannel \<Rightarrow> string \<Rightarrow> Texture option) \<Rightarrow> Mesh \<Rightarrow> MeshMaterial" where
  "applyMaterialsToMesh_glb loads mesh =
     (case material mesh of
        Multi materials \<Rightarrow>
          Multi (map (\<lambda>(i, existing).
                        case buildMaterialForMesh_glb (loads i) mesh
                               (Some (material_name existing)) of
                          Some (calls, created) \<Rightarrow> created
                        | None \<Rightarrow> existing)
                     (enumerate 0 materials))
      | Single existing \<Rightarrow>
          (case buildMaterialForMesh_glb (loads 0) mesh (Some (material_name existing)) of
             Some (calls, created) \<Rightarrow> Single created
           | None \<Rightarrow>
               if \<not> isMeshStandardMaterial existing then Single flatDefaultMaterial
               else Single existing))"

section \<open>Load tracking, the texture cache and the debug trace\<close>

text \<open>
  The module state the claims speak of, one field per module variable. Clock readings
  and durations are numbers of milliseconds, byte counts are integers. The two loader
  fields say whether the loader variable holds a loader. The FBX build has neither
  \<open>ktx2Loader\<close> nor \<open>textureDebug\<close>: its functions leave these fields alone.
\<close>

record MetricItem =
  durationMs :: "real option"
  sizeBytes :: "int option"

record LoadMetrics =
  total :: MetricItem
  model :: MetricItem
  texturesMetric :: MetricItem

datatype LoadStatus = success | fail

record TextureDebugEntry =
  path :: string
  status :: LoadStatus
  part :: "string option"
  variant :: "string option"

record ViewerState =
  loadMetrics :: LoadMetrics
  loading :: bool
  textureLoader :: bool
  ktx2Loader :: bool
  textureCache :: "string \<rightharpoonup> Texture"
  assetSizeCache :: "string \<rightharpoonup> int"
  recordedTextureAssets :: "string set"
  textureLoadsInFlight :: int
  textureLoadStart :: "real option"
  modelLoadStart :: "real option"
  modelSizeRecorded :: bool
  hasRenderedFirstFrame :: bool
  textureDebug :: "TextureDebugEntry list"

definition nullMetric :: MetricItem where
  "nullMetric = \<lparr>durationMs = None, sizeBytes = None\<rparr>"

definition initialState :: ViewerState where
  "initialState =
     \<lparr>loadMetrics = \<lparr>total = nullMetric, model = nullMetric, texturesMetric = nullMetric\<rparr>,
      loading = True, textureLoader = False, ktx2Loader = False,
      textureCache = Map.empty, assetSizeCache = Map.empty, recordedTextureAssets = {},
      textureLoadsInFlight = 0, textureLoadStart = None, modelLoadStart = None,
      modelSizeRecorded = False, hasRenderedFirstFrame = False, textureDebug = []\<rparr>"

definition resetLoadTracking :: "ViewerState \<Rightarrow> ViewerState" where
  "resetLoadTracking s =
     s\<lparr>loadMetrics := \<lparr>total = nullMetric, model = nullMetric, texturesMetric = nullMetric\<rparr>,
       textureLoadsInFlight := 0, textureLoadStart := None, modelLoadStart := None,
       modelSizeRecorded := False, recordedTextureAssets := {},
       hasRenderedFirstFrame := False\<rparr>"

definition updateTotalSizeMetric :: "ViewerState \<Rightarrow> ViewerState" where
  "updateTotalSizeMetric s =
     (let modelBytes = (case sizeBytes (model (loadMetrics s)) of Some b \<Rightarrow> b | None \<Rightarrow> 0);
          textureBytes =
            (case sizeBytes (texturesMetric (loadMetrics s)) of Some b \<Rightarrow> b | None \<Rightarrow> 0);
          combined = modelBytes + textureBytes
      in s\<lparr>loadMetrics := (loadMetrics s)
             \<lparr>total := (total (loadMetrics s))
                \<lparr>sizeBytes := (if combined > 0 then Some combined else None)\<rparr>\<rparr>\<rparr>)"

text \<open>\<open>now\<close> is the reading \<open>nowRelative()\<close> returns when it is called.\<close>

definition markFirstFrameRendered :: "real \<Rightarrow> ViewerState \<Rightarrow> ViewerState" where
  "markFirstFrameRendered now s =
     (if hasRenderedFirstFrame s \<or> loading s then s
      else updateTotalSizeMetric
             (s\<lparr>hasRenderedFirstFrame := True,
                loadMetrics := (loadMetrics s)
                  \<lparr>total := (total (loadMetrics s))\<lparr>durationMs := Some now\<rparr>\<rparr>\<rparr>))"

text \<open>
  \<open>toAbsoluteAssetUrl\<close> resolves a path against the origin of the page. Every path
  the viewer passes is an absolute URL already, and the model takes the branch that
  returns the path.
\<close>

definition toAbsoluteAssetUrl :: "string \<Rightarrow> string" where
  "toAbsoluteAssetUrl p = p"

datatype AssetType = model_asset | texture_asset

text \<open>
  The last statement of \<open>recordAssetSize\<close>, from
  \<open>if (typeof knownSize === 'number' && knownSize > 0)\<close> on.
\<close>

definition commitAssetSize :: "AssetType \<Rightarrow> string \<Rightarrow> int option \<Rightarrow> ViewerState \<Rightarrow> ViewerState" where
  "commitAssetSize type absoluteUrl knownSize s =
     (case knownSize of
        None \<Rightarrow> s
      | Some known \<Rightarrow>
          if known > 0 then
            (let s1 = s\<lparr>assetSizeCache := (assetSizeCache s)(absoluteUrl \<mapsto> known)\<rparr>;
                 s2 =
                   (if type = model_asset then
                      s1\<lparr>loadMetrics := (loadMetrics s1)
                            \<lparr>model := (model (loadMetrics s1))\<lparr>sizeBytes := Some known\<rparr>\<rparr>,
                         modelSizeRecorded := True\<rparr>
                    else
                      (let existing =
                             (case sizeBytes (texturesMetric (loadMetrics s1)) of
                                Some b \<Rightarrow> b
                              | None \<Rightarrow> 0)
                       in s1\<lparr>recordedTextureAssets := insert absoluteUrl (recordedTextureAssets s1),
                             loadMetrics := (loadMetrics s1)
                               \<lparr>texturesMetric := (texturesMetric (loadMetrics s1))
                                  \<lparr>sizeBytes := Some (existing + known)\<rparr>\<rparr>\<rparr>))
             in updateTotalSizeMetric s2)
          else s)"

text \<open>
  \<open>probe\<close> is what the transfer size read from the performance entries, and after it
  the size probe over the network, give for the URL; they are consulted only when
  \<open>assetSizeCache\<close> has no entry.
\<close>

definition recordAssetSize :: "AssetType \<Rightarrow> string \<Rightarrow> int option \<Rightarrow> ViewerState \<Rightarrow> ViewerState" where
  "recordAssetSize type p probe s =
     (let absoluteUrl = toAbsoluteAssetUrl p in
      if type = texture_asset \<and> absoluteUrl \<in> recordedTextureAssets s then s
      else if type = model_asset \<and> modelSizeRecorded s then s
      else commitAssetSize type absoluteUrl
             (case assetSizeCache s absoluteUrl of Some known \<Rightarrow> Some known | None \<Rightarrow> probe) s)"

definition markModelLoadStart :: "real \<Rightarrow> ViewerState \<Rightarrow> ViewerState" where
  "markModelLoadStart now s =
     s\<lparr>modelLoadStart := Some now,
       loadMetrics := (loadMetrics s)
         \<lparr>model := (model (loadMetrics s))\<lparr>durationMs := None\<rparr>\<rparr>\<rparr>"

definition markModelLoadEnd :: "real \<Rightarrow> string \<Rightarrow> int option \<Rightarrow> ViewerState \<Rightarrow> ViewerState" where
  "markModelLoadEnd now p probe s =
     (let s1 =
            (case modelLoadStart s of
               Some started \<Rightarrow>
                 s\<lparr>loadMetrics := (loadMetrics s)
                      \<lparr>model := (model (loadMetrics s))\<lparr>durationMs := Some (now - started)\<rparr>\<rparr>\<rparr>
             | None \<Rightarrow> s)
      in recordAssetSize model_asset p probe (s1\<lparr>modelLoadStart := None\<rparr>))"

definition markTextureLoadStart :: "real \<Rightarrow> ViewerState \<Rightarrow> ViewerState" where
  "markTextureLoadStart now s =
     (let s1 =
            (case textureLoadStart s of
               None \<Rightarrow>
                 s\<lparr>textureLoadStart := Some now,
                   loadMetrics := (loadMetrics s)
                     \<lparr>texturesMetric := (texturesMetric (loadMetrics s))\<lparr>durationMs := None\<rparr>\<rparr>\<rparr>
             | Some started \<Rightarrow> s)
      in s1\<lparr>textureLoadsInFlight := textureLoadsInFlight s1 + 1\<rparr>)"

definition markTextureLoadEnd :: "real \<Rightarrow> string \<Rightarrow> int option \<Rightarrow> ViewerState \<Rightarrow> ViewerState" where
  "markTextureLoadEnd now p probe s =
     (let s1 = s\<lparr>textureLoadsInFlight := max 0 (textureLoadsInFlight s - 1)\<rparr>;
          s2 =
            (case textureLoadStart s1 of
               Some started \<Rightarrow>
                 if textureLoadsInFlight s1 = 0 then
                   s1\<lparr>loadMetrics := (loadMetrics s1)
                         \<lparr>texturesMetric := (texturesMetric (loadMetrics s1))
                            \<lparr>durationMs := Some (now - started)\<rparr>\<rparr>,
                      textureLoadStart := None\<rparr>
                 else s1
             | None \<Rightarrow> s1)
      in recordAssetSize texture_asset p probe s2)"

text \<open>\<open>xs.slice(-n)\<close>: the last \<open>n\<close> elements, all of them when there are fewer.\<close>

definition sliceLast :: "nat \<Rightarrow> 'a list \<Rightarrow> 'a list" where
  "sliceLast n xs = drop (length xs - n) xs"

definition pushTextureDebug :: "TextureDebugEntry \<Rightarrow> ViewerState \<Rightarrow> ViewerState" where
  "pushTextureDebug entry s = s\<lparr>textureDebug := sliceLast 50 (textureDebug s) @ [entry]\<rparr>"

text \<open>
  A call of \<open>loadTexture\<close> resolves at once from the cache, rejects at once when the
  loader is missing, or hands the path to the loader: \<open>Requested\<close> is a call of
  \<open>loader.load\<close>, the fetch of the texture. The promise of a requested load settles in
  the callback the loader calls later, which is a function of its own below.
\<close>

datatype LoadOutcome = Resolved Texture | Rejected | Requested

definition loadTexture_fbx :: "real \<Rightarrow> string \<Rightarrow> ViewerState \<Rightarrow> LoadOutcome \<times> ViewerState" where
  "loadTexture_fbx now p s =
     (case textureCache s p of
        Some texture \<Rightarrow> (Resolved texture, s)
      | None \<Rightarrow>
          if \<not> textureLoader s then (Rejected, s)
          else (Requested, markTextureLoadStart now s))"

text \<open>The success callback resolves the promise with \<open>texture\<close>, the error callback rejects it.\<close>

definition onTextureLoaded_fbx ::
  "real \<Rightarrow> string \<Rightarrow> Texture \<Rightarrow> int option \<Rightarrow> ViewerState \<Rightarrow> ViewerState" where
  "onTextureLoaded_fbx now p texture probe s =
     markTextureLoadEnd now p probe (s\<lparr>textureCache := (textureCache s)(p \<mapsto> texture)\<rparr>)"

definition onTextureError_fbx :: "real \<Rightarrow> string \<Rightarrow> int option \<Rightarrow> ViewerState \<Rightarrow> ViewerState" where
  "onTextureError_fbx now p probe s = markTextureLoadEnd now p probe s"

definition isKtx2 :: "string \<Rightarrow> bool" where
  "isKtx2 p = suffix ''.ktx2'' (toLowerCase p)"

definition loadTexture_glb :: "real \<Rightarrow> string \<Rightarrow> ViewerState \<Rightarrow> LoadOutcome \<times> ViewerState" where
  "loadTexture_glb now p s =
     (case textureCache s p of
        Some texture \<Rightarrow> (Resolved texture, s)
      | None \<Rightarrow>
          if \<not> (if isKtx2 p then ktx2Loader s else textureLoader s) then (Rejected, s)
          else (Requested, markTextureLoadStart now s))"

definition onTextureLoaded_glb ::
  "real \<Rightarrow> string \<Rightarrow> Texture \<Rightarrow> int option \<Rightarrow> string option \<Rightarrow> string option
     \<Rightarrow> ViewerState \<Rightarrow> ViewerState" where
  "onTextureLoaded_glb now p texture probe pKey v s =
     pushTextureDebug \<lparr>path = p, status = success, part = pKey, variant = v\<rparr>
       (markTextureLoadEnd now p probe (s\<lparr>textureCache := (textureCache s)(p \<mapsto> texture)\<rparr>))"

definition onTextureError_glb ::
  "real \<Rightarrow> string \<Rightarrow> int option \<Rightarrow> string option \<Rightarrow> string option
     \<Rightarrow> ViewerState \<Rightarrow> ViewerState" where
  "onTextureError_glb now p probe pKey v s =
     pushTextureDebug \<lparr>path = p, status = fail, part = pKey, variant = v\<rparr>
       (markTextureLoadEnd now p probe s)"

text \<open>\<open>disposeResources\<close>, as far as the state above goes: it clears the texture cache.\<close>

definition disposeResources :: "ViewerState \<Rightarrow> ViewerState" where
  "disposeResources s = s\<lparr>textureCache := Map.empty\<rparr>"

subsection \<open>Runs of the viewer\<close>

text \<open>
  The viewer runs on one thread: every function above runs to its end before the next
  callback starts. A run is the list of the calls and callbacks in the order in which
  they happen, each with the clock reading and the answers of the browser it sees.
  \<open>SizeProbed\<close> is the rest of \<open>recordAssetSize\<close> after it awaited the size probe.
\<close>

datatype Build = FBX | GLB

datatype Event =
    ResetLoadTracking
  | CreateLoaders
  | LoadingDone
  | FirstFrame real
  | ModelLoadStart real
  | ModelLoadEnd real string "int option"
  | LoadTexture real string
  | TextureLoaded real string Texture "int option" "string option" "string option"
  | TextureFailed real string "int option" "string option" "string option"
  | SizeProbed AssetType string "int option"
  | DisposeResources

definition loadTexture :: "Build \<Rightarrow> real \<Rightarrow> string \<Rightarrow> ViewerState \<Rightarrow> LoadOutcome \<times> ViewerState" where
  "loadTexture b now p s =
     (case b of FBX \<Rightarrow> loadTexture_fbx now p s | GLB \<Rightarrow> loadTexture_glb now p s)"

fun step :: "Build \<Rightarrow> Event \<Rightarrow> ViewerState \<Rightarrow> ViewerState" where
  "step b ResetLoadTracking s = resetLoadTracking s"
| "step b CreateLoaders s =
     (case b of
        FBX \<Rightarrow> s\<lparr>textureLoader := True\<rparr>
      | GLB \<Rightarrow> s\<lparr>textureLoader := True, ktx2Loader := True\<rparr>)"
| "step b LoadingDone s = s\<lparr>loading := False\<rparr>"
| "step b (FirstFrame now) s = markFirstFrameRendered now s"
| "step b (ModelLoadStart now) s = markModelLoadStart now s"
| "step b (ModelLoadEnd now p probe) s = markModelLoadEnd now p probe s"
| "step b (LoadTexture now p) s = snd (loadTexture b now p s)"
| "step b (TextureLoaded now p texture probe pKey v) s =
     (case b of
        FBX \<Rightarrow> onTextureLoaded_fbx now p texture probe s
      | GLB \<Rightarrow> onTextureLoaded_glb now p texture probe pKey v s)"
| "step b (TextureFailed now p probe pKey v) s =
     (case b of
        FBX \<Rightarrow> onTextureError_fbx now p probe s
      | GLB \<Rightarrow> onTextureError_glb now p probe pKey v s)"
| "step b (SizeProbed type url known) s = commitAssetSize type url known s"
| "step b DisposeResources s = disposeResources s"

definition run :: "Build \<Rightarrow> Event list \<Rightarrow> ViewerState \<Rightarrow> ViewerState" where
  "run b events s = foldl (\<lambda>s e. step b e s) s events"

text \<open>The clock reading an event carries.\<close>

fun eventTime :: "Event \<Rightarrow> real" where
  "eventTime (FirstFrame now) = now"
| "eventTime (ModelLoadStart now) = now"
| "eventTime (ModelLoadEnd now p probe) = now"
| "eventTime (LoadTexture now p) = now"
| "eventTime (TextureLoaded now p texture probe pKey v) = now"
| "eventTime (TextureFailed now p probe pKey v) = now"
| "eventTime e = 0"

section \<open>Reading the claims\<close>

text \<open>
  A manifest key matches a node name when the normalized name starts with or contains the
  normalized key.
\<close>

definition matchesKey :: "string \<Rightarrow> string \<Rightarrow> bool" where
  "matchesKey K n =
     (prefix (normalizeKey K) (normalizeKey n) \<or> sublist (normalizeKey K) (normalizeKey n))"

text \<open>The first key, in the order of the manifest, that matches a node whose name is not blank.\<close>

definition firstMatchingKey :: "TextureManifest \<Rightarrow> string \<Rightarrow> string option" where
  "firstMatchingKey M n =
     (if trim n = [] then None else find (\<lambda>K. matchesKey K n) (objectKeys M))"

text \<open>A string that is, as a whole, a match of \<open>mat[a-z0-9]+\<close> in either case.\<close>

definition isVariantToken :: "string \<Rightarrow> bool" where
  "isVariantToken t =
     (case t of
        c1 # c2 # c3 # rest \<Rightarrow>
          (c1 = CHR ''m'' \<or> c1 = CHR ''M'') \<and> (c2 = CHR ''a'' \<or> c2 = CHR ''A'')
          \<and> (c3 = CHR ''t'' \<or> c3 = CHR ''T'') \<and> rest \<noteq> [] \<and> list_all isAlnum rest
      | _ \<Rightarrow> False)"

text \<open>
  The part-key extraction of the GLB build in the words of its description: the
  candidate is normalized, split on the underscore into its tokens (the pieces that are
  not empty), the tokens from the first numeric one up to the first one that begins
  with \<open>mat\<close> are collected, and at least two of them, joined and without a trailing
  \<open>_<digits>\<close>, are the key. How \<open>_low\<close> is stripped is the parameter \<open>stripLow\<close>.
\<close>

definition stripTrailingLow :: "string \<Rightarrow> string" where
  "stripTrailingLow s = (if suffix ''_low'' s then take (length s - 4) s else s)"

definition stripInstanceSuffix :: "string \<Rightarrow> string" where
  "stripInstanceSuffix s =
     (let digits = takeWhile isDigit (rev s);
          before = drop (length digits) (rev s)
      in case before of
           c # front \<Rightarrow> if digits \<noteq> [] \<and> c = CHR ''_'' then rev front else s
         | [] \<Rightarrow> s)"

definition partKeyAsDescribed :: "(string \<Rightarrow> string) \<Rightarrow> string \<Rightarrow> string option" where
  "partKeyAsDescribed stripLow v =
     (let normalized = normalizeKey (stripLow (replaceWhitespace v));
          tokens = filter (\<lambda>t. t \<noteq> []) (split CHR ''_'' normalized);
          collected = takeWhile (\<lambda>t. \<not> prefix ''mat'' t)
                        (dropWhile (\<lambda>t. \<not> isNumericToken t) tokens)
      in if length collected \<ge> 2 then Some (stripInstanceSuffix (join CHR ''_'' collected))
         else None)"

text \<open>
  The total size that the model and texture sizes give: unknown when both are unknown,
  their sum otherwise, an unknown size counting as zero.
\<close>

definition derivedTotalSize :: "LoadMetrics \<Rightarrow> int option" where
  "derivedTotalSize m =
     (case (sizeBytes (model m), sizeBytes (texturesMetric m)) of
        (None, None) \<Rightarrow> None
      | (Some a, None) \<Rightarrow> Some a
      | (None, Some b) \<Rightarrow> Some b
      | (Some a, Some b) \<Rightarrow> Some (a + b))"

definition knownPositive :: "int option \<Rightarrow> bool" where
  "knownPositive x = (case x of None \<Rightarrow> True | Some a \<Rightarrow> a > 0)"

definition sizeInvariant :: "ViewerState \<Rightarrow> bool" where
  "sizeInvariant s =
     (knownPositive (sizeBytes (model (loadMetrics s)))
      \<and> knownPositive (sizeBytes (texturesMetric (loadMetrics s)))
      \<and> sizeBytes (total (loadMetrics s)) = derivedTotalSize (loadMetrics s))"

text \<open>
  What the texture load tracking reads and writes: the in-flight counter, the start of
  the group and the duration of the texture metric; and what \<open>markTextureLoadStart\<close>
  and \<open>markTextureLoadEnd\<close> make of them.
\<close>

definition textureTracking :: "ViewerState \<Rightarrow> int \<times> real option \<times> real option" where
  "textureTracking s =
     (textureLoadsInFlight s, textureLoadStart s, durationMs (texturesMetric (loadMetrics s)))"

definition afterStart :: "real \<Rightarrow> int \<times> real option \<times> real option \<Rightarrow> int \<times> real option \<times> real option" where
  "afterStart now view =
     (case view of
        (n, None, duration) \<Rightarrow> (n + 1, Some now, None)
      | (n, Some started, duration) \<Rightarrow> (n + 1, Some started, duration))"

definition afterEnd :: "real \<Rightarrow> int \<times> real option \<times> real option \<Rightarrow> int \<times> real option \<times> real option" where
  "afterEnd now view =
     (case view of
        (n, None, duration) \<Rightarrow> (max 0 (n - 1), None, duration)
      | (n, Some started, duration) \<Rightarrow>
          if max 0 (n - 1) = 0 then (0, None, Some (now - started))
          else (max 0 (n - 1), Some started, duration))"

definition trackingSound :: "ViewerState \<Rightarrow> bool" where
  "trackingSound s =
     (0 \<le> textureLoadsInFlight s \<and> (textureLoadsInFlight s = 0) = (textureLoadStart s = None))"

definition groupOpen :: "real \<Rightarrow> ViewerState \<Rightarrow> bool" where
  "groupOpen started s =
     (0 < textureLoadsInFlight s \<and> textureLoadStart s = Some started
      \<and> durationMs (texturesMetric (loadMetrics s)) = None)"

fun isCompletion :: "Event \<Rightarrow> bool" where
  "isCompletion (TextureLoaded now p texture probe pKey v) = True"
| "isCompletion (TextureFailed now p probe pKey v) = True"
| "isCompletion e = False"

fun isRequest :: "Event \<Rightarrow> bool" where
  "isRequest (LoadTexture now p) = True"
| "isRequest e = False"

text \<open>
  An event keeps the cache entry of a path unless it disposes of the cache or is the
  success callback of another load of the same path. \<open>loaderReady\<close> says that the
  loader \<open>loadTexture\<close> picks for a path is there.
\<close>

fun keepsTexture :: "string \<Rightarrow> Event \<Rightarrow> bool" where
  "keepsTexture p DisposeResources = False"
| "keepsTexture p (TextureLoaded now q texture probe pKey v) = (q \<noteq> p)"
| "keepsTexture p e = True"

definition loaderReady :: "Build \<Rightarrow> string \<Rightarrow> ViewerState \<Rightarrow> bool" where
  "loaderReady b p s =
     (case b of
        FBX \<Rightarrow> textureLoader s
      | GLB \<Rightarrow> if isKtx2 p then ktx2Loader s else textureLoader s)"

text \<open>The manifests and materials of the examples.\<close>

definition twoVariantManifest :: TextureManifest where
  "twoVariantManifest =
     [(''P'', [(''matA'', [BaseColor \<mapsto> ''a.png'']), (''matB'', [BaseColor \<mapsto> ''b.png''])])]"

definition gearManifest :: TextureManifest where
  "gearManifest = [(''Gear_Housing'', [(''matMetal'', [BaseColor \<mapsto> ''a.png''])])]"

definition gearTexture :: string where
  "gearTexture = ''https://cdn.rainnnn.com/textures/Gear_Housing/a.png''"

definition exampleRun :: "real \<Rightarrow> Event list" where
  "exampleRun firstFrame =
     [CreateLoaders, ModelLoadStart 10, LoadTexture 20 ''t.png'',
      TextureLoaded 50 ''t.png'' 1 (Some 2048) None None,
      ModelLoadEnd 60 ''m.fbx'' (Some 4096), LoadingDone, FirstFrame firstFrame]"

definition phongMaterial :: Material where
  "phongMaterial =
     \<lparr>material_name = ''steel'', isMeshStandardMaterial = False, color = None,
      metalness = None, roughness = None, envMapIntensity = None,
      normalScale = None, aoMapIntensity = None, slots = Map.empty\<rparr>"

section \<open>Characters and normalization\<close>

lemmas char_defs =
  asciiUpper_def asciiLower_def isDigit_def isAlnum_def isWordChar_def isSpace_def
  lowerChar_def toLowerCase_def normalizeKey_def trim_def

lemma isSpace_not_word: "isSpace c \<Longrightarrow> \<not> isWordChar c"
  by (auto simp: char_defs)

lemma filter_dropWhile_disjoint:
  "(\<And>x. Q x \<Longrightarrow> \<not> P x) \<Longrightarrow> filter P (dropWhile Q xs) = filter P xs"
  by (induction xs) auto

lemma normalizeKey_trim: "normalizeKey (trim n) = normalizeKey n"
proof -
  have a: "filter isWordChar (dropWhile isSpace ys) = filter isWordChar ys" for ys
    by (rule filter_dropWhile_disjoint) (rule isSpace_not_word)
  have "filter isWordChar (trim n)
          = rev (filter isWordChar (dropWhile isSpace (rev (dropWhile isSpace n))))"
    unfolding trim_def by (rule rev_filter [symmetric])
  also have "\<dots> = rev (filter isWordChar (rev (dropWhile isSpace n)))"
    by (simp only: a)
  also have "\<dots> = filter isWordChar (dropWhile isSpace n)"
    by (simp add: rev_filter)
  also have "\<dots> = filter isWordChar n"
    by (rule a)
  finally show ?thesis by (simp add: normalizeKey_def)
qed

section \<open>The part resolver of the FBX build\<close>

lemma find_meta:
  "find (\<lambda>(original, normalized). prefix normalized X \<or> sublist normalized X)
        (map (\<lambda>key. (key, normalizeKey key)) ks)
   = map_option (\<lambda>key. (key, normalizeKey key))
       (find (\<lambda>K. prefix (normalizeKey K) X \<or> sublist (normalizeKey K) X) ks)"
  by (induction ks) auto

lemma findPartKeyFromObject_step:
  "findPartKeyFromObject M (Some (Object3D nm par)) =
     (case firstMatchingKey M nm of
        Some K \<Rightarrow> Some K
      | None \<Rightarrow> findPartKeyFromObject M par)"
  by (simp add: firstMatchingKey_def manifestPartMeta_def find_meta normalizeKey_trim
      matchesKey_def split: option.splits)

lemma find_first:
  "K \<in> set ks \<Longrightarrow> P K \<Longrightarrow> \<forall>k \<in> set (takeWhile (\<lambda>k. k \<noteq> K) ks). \<not> P k
     \<Longrightarrow> find P ks = Some K"
  by (induction ks) (auto split: if_splits)

text \<open>
  C1, as the code has it. The walk goes from the mesh upward and stops at the first node
  whose name is not blank and matches some key; there the first matching key in the order
  of the manifest is returned. So the resolver returns \<open>K\<close> when \<open>K\<close> matches the node at
  position \<open>i\<close> of the walk, no key that comes before \<open>K\<close> in the manifest matches that
  node, and no key at all matches a node closer to the mesh.
\<close>

theorem findPartKeyFromObject_first_hit:
  assumes "i < length (ancestry mesh)"
    and "K \<in> set (objectKeys M)"
    and "trim (ancestry mesh ! i) \<noteq> []"
    and "matchesKey K (ancestry mesh ! i)"
    and "\<forall>K' \<in> set (takeWhile (\<lambda>k. k \<noteq> K) (objectKeys M)). \<not> matchesKey K' (ancestry mesh ! i)"
    and "\<forall>j<i. \<forall>K' \<in> set (objectKeys M).
           trim (ancestry mesh ! j) = [] \<or> \<not> matchesKey K' (ancestry mesh ! j)"
  shows "findPartKeyFromObject M (Some mesh) = Some K"
  using assms
proof (induction mesh arbitrary: i rule: ancestry.induct)
  case (1 n)
  then have "i = 0" by simp
  with 1 have "firstMatchingKey M n = Some K"
    by (simp add: firstMatchingKey_def find_first)
  then show ?case
    by (simp add: findPartKeyFromObject_step del: findPartKeyFromObject.simps(2))
next
  case (2 n p)
  show ?case
  proof (cases i)
    case 0
    with 2 have "firstMatchingKey M n = Some K"
      by (simp add: firstMatchingKey_def find_first)
    then show ?thesis
      by (simp add: findPartKeyFromObject_step del: findPartKeyFromObject.simps(2))
  next
    case (Suc i')
    with 2(7) have "\<forall>K' \<in> set (objectKeys M). trim n = [] \<or> \<not> matchesKey K' n"
      by fastforce
    then have none: "firstMatchingKey M n = None"
      by (auto simp: firstMatchingKey_def find_None_iff)
    have "findPartKeyFromObject M (Some p) = Some K"
    proof (rule 2(1) [of i'])
      show "i' < length (ancestry p)" using 2(2) Suc by simp
      show "K \<in> set (objectKeys M)" by (rule 2(3))
      show "trim (ancestry p ! i') \<noteq> []" using 2(4) Suc by simp
      show "matchesKey K (ancestry p ! i')" using 2(5) Suc by simp
      show "\<forall>K' \<in> set (takeWhile (\<lambda>k. k \<noteq> K) (objectKeys M)).
              \<not> matchesKey K' (ancestry p ! i')"
        using 2(6) Suc by simp
      show "\<forall>j<i'. \<forall>K' \<in> set (objectKeys M).
              trim (ancestry p ! j) = [] \<or> \<not> matchesKey K' (ancestry p ! j)"
        using 2(7) Suc by fastforce
    qed
    with none show ?thesis
      by (simp add: findPartKeyFromObject_step del: findPartKeyFromObject.simps(2))
  qed
qed

text \<open>
  The theorem at a mesh \<open>mesh_01\<close> under a group \<open>Gear_Housing_grp\<close>, with the keys
  \<open>Gear\<close> and \<open>Gear_Housing\<close> in this order: the group is the closest node that matches,
  and \<open>Gear\<close> is the first key that matches it.
\<close>

theorem findPartKeyFromObject_first_hit_witness:
  "findPartKeyFromObject [(''Gear'', []), (''Gear_Housing'', [])]
     (Some (Object3D ''mesh_01'' (Some (Object3D ''Gear_Housing_grp'' None)))) = Some ''Gear''"
  by (rule findPartKeyFromObject_first_hit [of 1])
     (simp_all add: char_defs matchesKey_def objectKeys_def prefix_code sublist_code)

text \<open>
  C1 as stated fails: with the keys \<open>Gear\<close> and \<open>Gear_Housing\<close>, the mesh
  \<open>Gear_Housing_mesh\<close> has a name that contains the normalized key \<open>Gear_Housing\<close>, and
  the resolver returns \<open>Gear\<close>.
\<close>

theorem findPartKeyFromObject_counterexample:
  "''Gear_Housing'' \<in> set (objectKeys [(''Gear'', []), (''Gear_Housing'', [])])
   \<and> matchesKey ''Gear_Housing'' (name (Object3D ''Gear_Housing_mesh'' None))
   \<and> findPartKeyFromObject [(''Gear'', []), (''Gear_Housing'', [])]
        (Some (Object3D ''Gear_Housing_mesh'' None)) = Some ''Gear''
   \<and> findPartKeyFromObject [(''Gear'', []), (''Gear_Housing'', [])]
        (Some (Object3D ''Gear_Housing_mesh'' None)) \<noteq> Some ''Gear_Housing''"
  by (simp add: char_defs matchesKey_def manifestPartMeta_def objectKeys_def prefix_code
      sublist_code)

section \<open>The variant token and the variant of a part\<close>

lemma matchVariantAt_token:
  assumes "matchVariantAt s = Some m"
  shows "isVariantToken m \<and> prefix m s"
proof -
  from assms obtain c1 c2 c3 rest where s: "s = c1 # c2 # c3 # rest"
    by (auto simp: matchVariantAt_def split: list.splits)
  with assms have m: "m = c1 # c2 # c3 # takeWhile isAlnum rest"
    and c: "(c1 = CHR ''m'' \<or> c1 = CHR ''M'') \<and> (c2 = CHR ''a'' \<or> c2 = CHR ''A'')
             \<and> (c3 = CHR ''t'' \<or> c3 = CHR ''T'')"
    and ne: "takeWhile isAlnum rest \<noteq> []"
    by (simp_all add: matchVariantAt_def split: if_splits)
  have "list_all isAlnum (takeWhile isAlnum rest)"
    by (auto simp: list_all_iff dest: set_takeWhileD)
  with m c ne have "isVariantToken m"
    by (simp add: isVariantToken_def)
  moreover have "prefix m s"
    unfolding m s by (simp add: takeWhile_is_prefix)
  ultimately show ?thesis by simp
qed

lemma firstVariantMatch_token:
  "firstVariantMatch s = Some m \<Longrightarrow> isVariantToken m \<and> sublist m s"
proof (induction s)
  case Nil
  then show ?case by simp
next
  case (Cons c cs)
  show ?case
  proof (cases "matchVariantAt (c # cs)")
    case None
    with Cons show ?thesis by (auto intro: sublist_Cons_right [THEN iffD2])
  next
    case (Some m')
    with Cons.prems have "m' = m" by simp
    with Some show ?thesis
      using matchVariantAt_token [of "c # cs" m] by (auto intro: prefix_imp_sublist)
  qed
qed

lemma matchVariantAt_whole: "isVariantToken t \<Longrightarrow> matchVariantAt (t @ post) \<noteq> None"
  by (auto simp: matchVariantAt_def isVariantToken_def list_all_iff neq_Nil_conv
      split: list.splits)

lemma matchVariantAt_self: "isVariantToken t \<Longrightarrow> matchVariantAt t = Some t"
  by (auto simp: matchVariantAt_def isVariantToken_def list_all_iff
      takeWhile_eq_all_conv [THEN iffD2] split: list.splits)

lemma isVariantToken_nonempty: "isVariantToken t \<Longrightarrow> t \<noteq> []"
  by (auto simp: isVariantToken_def)

lemma isVariantToken_Nil: "\<not> isVariantToken []"
  by (simp add: isVariantToken_def)

lemma firstVariantMatch_self: "isVariantToken t \<Longrightarrow> firstVariantMatch t = Some t"
  by (cases t) (auto simp: matchVariantAt_self isVariantToken_Nil)

lemma firstVariantMatch_complete:
  "isVariantToken t \<Longrightarrow> firstVariantMatch (pre @ t @ post) \<noteq> None"
proof (induction pre)
  case Nil
  then show ?case
    using matchVariantAt_whole [of t post]
    by (cases t) (auto simp: isVariantToken_Nil split: option.splits)
next
  case (Cons c pre)
  then show ?case by (auto split: option.splits)
qed

lemma isVariantToken_normalized: "isVariantToken t \<Longrightarrow> normalizeKey t \<noteq> []"
  by (auto simp: isVariantToken_def normalizeKey_def toLowerCase_def isWordChar_def isAlnum_def
      asciiLower_def asciiUpper_def split: list.splits)

lemma matchVariantAt_longest:
  assumes "isVariantToken t" and "post = [] \<or> \<not> isAlnum (hd post)"
  shows "matchVariantAt (t @ post) = Some t"
proof -
  from assms(1) obtain c1 c2 c3 rest where t: "t = c1 # c2 # c3 # rest"
    by (auto simp: isVariantToken_def split: list.splits)
  with assms(1) have c: "(c1 = CHR ''m'' \<or> c1 = CHR ''M'') \<and> (c2 = CHR ''a'' \<or> c2 = CHR ''A'')
             \<and> (c3 = CHR ''t'' \<or> c3 = CHR ''T'')" and ne: "rest \<noteq> []"
    and al: "\<forall>x \<in> set rest. isAlnum x"
    by (simp_all add: isVariantToken_def list_all_iff)
  from assms(2) have "takeWhile isAlnum post = []"
    by (cases post) auto
  with al have "takeWhile isAlnum (rest @ post) = rest"
    by (simp add: takeWhile_append2)
  with c ne show ?thesis
    unfolding t by (simp add: matchVariantAt_def)
qed

lemma matchVariantAt_none:
  "\<forall>t'. isVariantToken t' \<longrightarrow> \<not> prefix t' u \<Longrightarrow> matchVariantAt u = None"
  using matchVariantAt_token [of u] by (cases "matchVariantAt u") auto

lemma firstVariantMatch_leftmost:
  assumes "isVariantToken t" and "post = [] \<or> \<not> isAlnum (hd post)"
  shows "\<forall>i<length pre. \<forall>t'. isVariantToken t' \<longrightarrow> \<not> prefix t' (drop i (pre @ t @ post))
           \<Longrightarrow> firstVariantMatch (pre @ t @ post) = Some t"
proof (induction pre)
  case Nil
  from assms(1) obtain c cs where "t = c # cs"
    by (cases t) (auto simp: isVariantToken_Nil)
  with matchVariantAt_longest [OF assms] show ?case
    by simp
next
  case (Cons c pre)
  from Cons.prems have "\<forall>t'. isVariantToken t' \<longrightarrow> \<not> prefix t' (drop 0 ((c # pre) @ t @ post))"
    by blast
  then have none: "matchVariantAt (c # pre @ t @ post) = None"
    using matchVariantAt_none [of "c # pre @ t @ post"] by simp
  have "\<forall>i<length pre. \<forall>t'. isVariantToken t' \<longrightarrow> \<not> prefix t' (drop i (pre @ t @ post))"
  proof (intro allI impI)
    fix i t' assume "i < length pre" "isVariantToken t'"
    with Cons.prems have "\<not> prefix t' (drop (Suc i) ((c # pre) @ t @ post))"
      by (metis Suc_less_eq length_Cons)
    then show "\<not> prefix t' (drop i (pre @ t @ post))" by simp
  qed
  from Cons.IH [OF this] none show ?case by simp
qed

lemma extractVariantName_token:
  "extractVariantName v = Some t \<Longrightarrow> isVariantToken t"
  using firstVariantMatch_token
  by (auto simp: extractVariantName_def split: option.splits if_splits)

lemma find_key_map_of:
  "find (\<lambda>kv. P (fst kv)) entry = Some (k, v)
     \<Longrightarrow> find P (map fst entry) = Some k \<and> map_of entry k = Some v \<and> P k"
  by (induction entry) (auto split: if_splits)

lemma find_key_none:
  "find (\<lambda>kv. P (fst kv)) entry = None \<Longrightarrow> find P (map fst entry) = None"
  by (induction entry) (auto split: if_splits)

lemmas eval_defs =
  char_defs manifestPartMeta_def objectKeys_def prefix_code sublist_code
  extractVariantName_def matchVariantAt_def resolveManifestInfo_def variantKey_def

text \<open>
  C2, as the code has it, for a mesh whose part \<open>pk\<close> is resolved and declared. The token
  is the leftmost match of the pattern in the material name, taken as long as it can be,
  and, when the material name has none, the one of the mesh name. A material name that is
  a match as a whole is its own token; a token that is extracted is a match and a part of
  the name; a name that contains a match yields a token; and a match in the name is the
  token when no match begins before it and no letter or digit follows it. The resolver takes the first declared
  variant whose normalized key equals the normalized token. It takes the first declared
  variant of the part when neither name yields a token or no declared key equals the
  token.
\<close>

theorem resolveManifestInfo_variant:
  assumes part: "findPartKeyFromObject M (Some mesh) = Some pk" "pk \<noteq> []"
      "map_of M pk = Some partEntry"
    and token: "token = (case extractVariantName mn of
                           Some t \<Rightarrow> Some t
                         | None \<Rightarrow> extractVariantName (Some (name mesh)))"
  shows "(\<forall>s. mn = Some s \<and> isVariantToken s \<longrightarrow> token = Some s)
     \<and> (\<forall>s t. mn = Some s \<and> extractVariantName mn = Some t
           \<longrightarrow> isVariantToken t \<and> sublist t s \<and> token = Some t)
     \<and> (\<forall>s t. mn = Some s \<and> isVariantToken t \<and> sublist t s \<longrightarrow> extractVariantName mn \<noteq> None)
     \<and> (\<forall>s pre t post. mn = Some s \<and> s = pre @ t @ post \<and> isVariantToken t
            \<and> (post = [] \<or> \<not> isAlnum (hd post))
            \<and> (\<forall>i<length pre. \<forall>t'. isVariantToken t' \<longrightarrow> \<not> prefix t' (drop i s))
           \<longrightarrow> extractVariantName mn = Some t)
     \<and> (\<forall>t vk tex. token = Some t
            \<and> find (\<lambda>kv. normalizeKey (fst kv) = normalizeKey t) partEntry = Some (vk, tex)
           \<longrightarrow> resolveManifestInfo M mesh mn = Some \<lparr>partKey = pk, textures = tex\<rparr>)
     \<and> (\<forall>k0 tex0 rest. partEntry = (k0, tex0) # rest \<and> k0 \<noteq> []
            \<and> (token = None
               \<or> (\<exists>t. token = Some t
                     \<and> find (\<lambda>kv. normalizeKey (fst kv) = normalizeKey t) partEntry = None))
           \<longrightarrow> resolveManifestInfo M mesh mn = Some \<lparr>partKey = pk, textures = tex0\<rparr>)"
proof -
  have p1: "token = Some s" if "mn = Some s \<and> isVariantToken s" for s
    using that
    by (simp add: token extractVariantName_def firstVariantMatch_self isVariantToken_nonempty)
  have p2: "isVariantToken t \<and> sublist t s \<and> token = Some t"
    if a: "mn = Some s \<and> extractVariantName mn = Some t" for s t
  proof -
    from a have "firstVariantMatch s = Some t"
      by (auto simp: extractVariantName_def split: if_splits)
    with a show ?thesis
      by (auto simp: token firstVariantMatch_token)
  qed
  have p3: "extractVariantName mn \<noteq> None"
    if a: "mn = Some s \<and> isVariantToken t \<and> sublist t s" for s t
  proof -
    from a obtain pre post where "s = pre @ t @ post" by (auto simp: sublist_def)
    with a have "firstVariantMatch s \<noteq> None" "s \<noteq> []"
      by (auto simp: firstVariantMatch_complete isVariantToken_Nil)
    with a show ?thesis
      by (simp add: extractVariantName_def)
  qed
  have p3': "extractVariantName mn = Some t"
    if a: "mn = Some s \<and> s = pre @ t @ post \<and> isVariantToken t
           \<and> (post = [] \<or> \<not> isAlnum (hd post))
           \<and> (\<forall>i<length pre. \<forall>t'. isVariantToken t' \<longrightarrow> \<not> prefix t' (drop i s))"
    for s pre t post
  proof -
    from a have "firstVariantMatch (pre @ t @ post) = Some t"
      by (intro firstVariantMatch_leftmost) auto
    moreover from a have "s \<noteq> []"
      by (auto simp: isVariantToken_Nil)
    ultimately show ?thesis
      using a by (simp add: extractVariantName_def)
  qed
  have p4: "resolveManifestInfo M mesh mn = Some \<lparr>partKey = pk, textures = tex\<rparr>"
    if a: "token = Some t
           \<and> find (\<lambda>kv. normalizeKey (fst kv) = normalizeKey t) partEntry = Some (vk, tex)"
    for t vk tex
  proof -
    from a have tok: "isVariantToken t"
      using extractVariantName_token by (auto simp: token split: option.splits)
    from a have f: "find (\<lambda>key. normalizeKey key = normalizeKey t) (map fst partEntry) = Some vk"
      "map_of partEntry vk = Some tex" "normalizeKey vk = normalizeKey t"
      using find_key_map_of [of "\<lambda>k. normalizeKey k = normalizeKey t" partEntry vk tex]
      by simp_all
    from f(3) tok have ne: "vk \<noteq> []"
      using isVariantToken_normalized [of t] by (auto simp: normalizeKey_def toLowerCase_def)
    with a f tok have "variantKey partEntry mn (name mesh) = Some vk"
      by (simp add: variantKey_def objectKeys_def token [symmetric] isVariantToken_nonempty)
    with part f ne show ?thesis
      by (simp add: resolveManifestInfo_def)
  qed
  have p5: "resolveManifestInfo M mesh mn = Some \<lparr>partKey = pk, textures = tex0\<rparr>"
    if a: "partEntry = (k0, tex0) # rest \<and> k0 \<noteq> []
           \<and> (token = None
              \<or> (\<exists>t. token = Some t
                    \<and> find (\<lambda>kv. normalizeKey (fst kv) = normalizeKey t) partEntry = None))"
    for k0 tex0 rest
  proof -
    from a have "variantKey partEntry mn (name mesh) = Some k0"
      using find_key_none [of _ partEntry]
      by (auto simp: variantKey_def objectKeys_def token [symmetric] simp del: find.simps)
    with part a show ?thesis
      by (simp add: resolveManifestInfo_def)
  qed
  from p1 p2 p3 p3' p4 p5 show ?thesis by blast
qed

text \<open>
  The theorem at a part \<open>P\<close> that declares \<open>matA\<close> and \<open>matB\<close>, for a mesh \<open>P_9\<close>: the
  material name \<open>MATB\<close> selects \<open>matB\<close>, and \<open>steel\<close> falls back to \<open>matA\<close>.
\<close>

theorem resolveManifestInfo_variant_witness:
  "resolveManifestInfo twoVariantManifest (Object3D ''P_9'' None) (Some ''MATB'')
     = Some \<lparr>partKey = ''P'', textures = [BaseColor \<mapsto> ''b.png'']\<rparr>
   \<and> resolveManifestInfo twoVariantManifest (Object3D ''P_9'' None) (Some ''steel'')
     = Some \<lparr>partKey = ''P'', textures = [BaseColor \<mapsto> ''a.png'']\<rparr>"
proof -
  let ?entry = "[(''matA'', [BaseColor \<mapsto> ''a.png'']), (''matB'', [BaseColor \<mapsto> ''b.png''])]"
  have h1: "findPartKeyFromObject twoVariantManifest (Some (Object3D ''P_9'' None)) = Some ''P''"
    by (simp add: eval_defs twoVariantManifest_def)
  have h2: "''P'' \<noteq> []" by simp
  have h3: "map_of twoVariantManifest ''P'' = Some ?entry"
    by (simp add: twoVariantManifest_def)
  have t1: "Some ''MATB'' = (case extractVariantName (Some ''MATB'') of
                               Some t \<Rightarrow> Some t
                             | None \<Rightarrow> extractVariantName (Some (name (Object3D ''P_9'' None))))"
    by (simp add: eval_defs)
  have t2: "None = (case extractVariantName (Some ''steel'') of
                      Some t \<Rightarrow> Some t
                    | None \<Rightarrow> extractVariantName (Some (name (Object3D ''P_9'' None))))"
    by (simp add: eval_defs)
  have f: "find (\<lambda>kv. normalizeKey (fst kv) = normalizeKey ''MATB'') ?entry
             = Some (''matB'', [BaseColor \<mapsto> ''b.png''])"
    by (simp add: char_defs)
  from resolveManifestInfo_variant [OF h1 h2 h3 t1] f
  have a: "resolveManifestInfo twoVariantManifest (Object3D ''P_9'' None) (Some ''MATB'')
             = Some \<lparr>partKey = ''P'', textures = [BaseColor \<mapsto> ''b.png'']\<rparr>"
    by blast
  from resolveManifestInfo_variant [OF h1 h2 h3 t2]
  have b: "resolveManifestInfo twoVariantManifest (Object3D ''P_9'' None) (Some ''steel'')
             = Some \<lparr>partKey = ''P'', textures = [BaseColor \<mapsto> ''a.png'']\<rparr>"
    by blast
  from a b show ?thesis by simp
qed

text \<open>
  C2 as stated fails: the material name \<open>steel\<close> has no match, the mesh is named
  \<open>P_matB\<close>, and the resolver yields the files of \<open>matB\<close>, which is not the first
  declared variant of the part.
\<close>

theorem resolveManifestInfo_counterexample:
  "extractVariantName (Some ''steel'') = None
   \<and> map_option (\<lambda>info. (partKey info, textures info BaseColor))
       (resolveManifestInfo twoVariantManifest (Object3D ''P_matB'' None) (Some ''steel''))
     = Some (''P'', Some ''b.png'')
   \<and> map_option (\<lambda>entry. map fst entry) (map_of twoVariantManifest ''P'')
     = Some [''matA'', ''matB'']"
  by (simp add: eval_defs twoVariantManifest_def)

section \<open>Materials of the FBX build\<close>

lemma gear_part:
  "findPartKeyFromObject gearManifest (Some (Object3D ''Gear_Housing_mesh_matMetal'' par))
     = Some ''Gear_Housing''"
  by (simp add: char_defs gearManifest_def manifestPartMeta_def objectKeys_def prefix_code
      sublist_code)

lemma single_variant: "variantKey [(''matMetal'', files)] mn meshName = Some ''matMetal''"
  by (simp add: variantKey_def objectKeys_def Let_def split: option.splits)

lemma gear_calls:
  "foldl (buildChannel_fbx \<lparr>partKey = ''Gear_Housing'', textures = [BaseColor \<mapsto> ''a.png'']\<rparr> load)
         ([], candidate_fbx) textureMeta_fbx
     = ([(''https://cdn.rainnnn.com/textures/Gear_Housing/a.png'', True)],
        (case load BaseColor ''https://cdn.rainnnn.com/textures/Gear_Housing/a.png'' of
           Some tex \<Rightarrow> assignTargets tex [map_target] candidate_fbx
         | None \<Rightarrow> candidate_fbx))"
  by (simp add: textureMeta_fbx_def buildChannel_fbx_def textureBasePath_fbx_def
      split: option.splits)

text \<open>
  C6. With the manifest of the scenario, a mesh named \<open>Gear_Housing_mesh_matMetal\<close>
  resolves to the part \<open>Gear_Housing\<close> and the variant \<open>matMetal\<close>, whatever its
  ancestors, its material name and the outcome of the load are, and building its
  material calls \<open>loadTexture\<close> once, for
  \<open>https://cdn.rainnnn.com/textures/Gear_Housing/a.png\<close>.
\<close>

theorem gear_housing_scenario:
  "findPartKeyFromObject gearManifest (Some (Object3D ''Gear_Housing_mesh_matMetal'' par))
     = Some ''Gear_Housing''
   \<and> variantKey [(''matMetal'', [BaseColor \<mapsto> ''a.png''])] mn ''Gear_Housing_mesh_matMetal''
     = Some ''matMetal''
   \<and> resolveManifestInfo gearManifest (Object3D ''Gear_Housing_mesh_matMetal'' par) mn
     = Some \<lparr>partKey = ''Gear_Housing'', textures = [BaseColor \<mapsto> ''a.png'']\<rparr>
   \<and> map_option fst (buildMaterialForMesh_fbx gearManifest load
         \<lparr>object = Object3D ''Gear_Housing_mesh_matMetal'' par, material = mat\<rparr> mn)
     = Some [(''https://cdn.rainnnn.com/textures/Gear_Housing/a.png'', True)]"
proof -
  have r: "resolveManifestInfo gearManifest (Object3D ''Gear_Housing_mesh_matMetal'' par) mn
       = Some \<lparr>partKey = ''Gear_Housing'', textures = [BaseColor \<mapsto> ''a.png'']\<rparr>"
    unfolding resolveManifestInfo_def gear_part
    by (simp add: gearManifest_def single_variant)
  show ?thesis
    by (simp add: gear_part single_variant r buildMaterialForMesh_fbx_def gear_calls
        del: findPartKeyFromObject.simps)
qed

text \<open>The scenario for a mesh at the root, with the material \<open>steel\<close> and a load that succeeds.\<close>

theorem gear_housing_scenario_witness:
  "resolveManifestInfo gearManifest (Object3D ''Gear_Housing_mesh_matMetal'' None) (Some ''steel'')
     = Some \<lparr>partKey = ''Gear_Housing'', textures = [BaseColor \<mapsto> ''a.png'']\<rparr>
   \<and> map_option fst (buildMaterialForMesh_fbx gearManifest (\<lambda>channel p. Some 1)
         \<lparr>object = Object3D ''Gear_Housing_mesh_matMetal'' None, material = Single phongMaterial\<rparr>
         (Some ''steel''))
     = Some [(''https://cdn.rainnnn.com/textures/Gear_Housing/a.png'', True)]"
  using gear_housing_scenario [of None "Some ''steel''" "\<lambda>channel p. Some 1" "Single phongMaterial"]
  by blast

lemma no_match_none:
  assumes "\<forall>n \<in> set (ancestry obj). \<forall>K \<in> set (objectKeys M). \<not> matchesKey K n"
  shows "findPartKeyFromObject M (Some obj) = None"
  using assms
proof (induction obj rule: ancestry.induct)
  case (1 n)
  then have "firstMatchingKey M n = None"
    by (auto simp: firstMatchingKey_def find_None_iff)
  then show ?case
    by (simp add: findPartKeyFromObject_step del: findPartKeyFromObject.simps(2))
next
  case (2 n p)
  then have "firstMatchingKey M n = None"
    by (auto simp: firstMatchingKey_def find_None_iff)
  with 2 show ?case
    by (simp add: findPartKeyFromObject_step del: findPartKeyFromObject.simps(2))
qed

text \<open>
  C7, as the code has it. For a mesh none of whose own or ancestor names matches a
  manifest key, the resolver finds no part and \<open>buildMaterialForMesh\<close> returns \<open>null\<close>.
  A single material that is not a \<open>MeshStandardMaterial\<close> is replaced by the flat
  default (gray \<open>0x777777\<close>, metalness \<open>0.5\<close>, roughness \<open>0.6\<close>); a single
  \<open>MeshStandardMaterial\<close> and every material of an array stay as they are.
\<close>

theorem unresolved_mesh_fallback:
  assumes "\<forall>n \<in> set (ancestry (object mesh)). \<forall>K \<in> set (objectKeys M). \<not> matchesKey K n"
  shows "findPartKeyFromObject M (Some (object mesh)) = None
    \<and> resolveManifestInfo M (object mesh) mn = None
    \<and> buildMaterialForMesh_fbx M load mesh mn = None
    \<and> applyMaterialsToMesh_fbx M loads mesh =
        (case material mesh of
           Multi materials \<Rightarrow> Multi materials
         | Single existing \<Rightarrow>
             if isMeshStandardMaterial existing then Single existing
             else Single flatDefaultMaterial)
    \<and> color flatDefaultMaterial = Some 0x777777
    \<and> metalness flatDefaultMaterial = Some 0.5
    \<and> roughness flatDefaultMaterial = Some 0.6"
proof -
  have a: "findPartKeyFromObject M (Some (object mesh)) = None"
    using assms by (rule no_match_none)
  then have b: "buildMaterialForMesh_fbx M l mesh m = None" for l m
    by (simp add: buildMaterialForMesh_fbx_def resolveManifestInfo_def)
  have c: "map (\<lambda>(i, existing). existing) (enumerate 0 ms) = ms" for ms :: "Material list"
    using map_snd_enumerate [of 0 ms] by (simp add: case_prod_unfold)
  from a b c show ?thesis
    by (simp add: applyMaterialsToMesh_fbx_def resolveManifestInfo_def flatDefaultMaterial_def
        split: MeshMaterial.splits)
qed

text \<open>
  The theorem at a mesh \<open>bolt\<close> with one Phong material, under the manifest with the
  single part \<open>Gear\<close>: the material becomes the flat default.
\<close>

theorem unresolved_mesh_fallback_witness:
  "applyMaterialsToMesh_fbx [(''Gear'', [])] (\<lambda>i channel p. None)
     \<lparr>object = Object3D ''bolt'' None, material = Single phongMaterial\<rparr>
   = Single flatDefaultMaterial"
proof -
  have h: "\<forall>n \<in> set (ancestry (object \<lparr>object = Object3D ''bolt'' None,
                                          material = Single phongMaterial\<rparr>)).
             \<forall>K \<in> set (objectKeys [(''Gear'', [] :: PartEntry)]). \<not> matchesKey K n"
    by (simp add: char_defs matchesKey_def objectKeys_def prefix_code sublist_code)
  from unresolved_mesh_fallback [OF h, of None "\<lambda>channel p. None" "\<lambda>i channel p. None"]
  show ?thesis
    by (simp add: phongMaterial_def)
qed

text \<open>
  C7 as stated fails: under the same manifest the mesh \<open>bolt\<close> matches no key, and
  neither an array of materials nor a single \<open>MeshStandardMaterial\<close> is replaced by the
  flat default.
\<close>

theorem unresolved_mesh_counterexample:
  "applyMaterialsToMesh_fbx [(''Gear'', [])] (\<lambda>i channel p. None)
     \<lparr>object = Object3D ''bolt'' None, material = Multi [phongMaterial]\<rparr>
   = Multi [phongMaterial]
   \<and> applyMaterialsToMesh_fbx [(''Gear'', [])] (\<lambda>i channel p. None)
       \<lparr>object = Object3D ''bolt'' None,
        material = Single (phongMaterial\<lparr>isMeshStandardMaterial := True\<rparr>)\<rparr>
     = Single (phongMaterial\<lparr>isMeshStandardMaterial := True\<rparr>)
   \<and> Single (phongMaterial\<lparr>isMeshStandardMaterial := True\<rparr>) \<noteq> Single flatDefaultMaterial
   \<and> buildMaterialForMesh_fbx [(''Gear'', [])] (\<lambda>channel p. None)
       \<lparr>object = Object3D ''bolt'' None, material = Multi [phongMaterial]\<rparr> (Some ''steel'')
     = None"
  by (simp add: applyMaterialsToMesh_fbx_def buildMaterialForMesh_fbx_def
      resolveManifestInfo_def char_defs manifestPartMeta_def objectKeys_def prefix_code
      sublist_code enumerate_eq_zip phongMaterial_def flatDefaultMaterial_def)

section \<open>The part key of the GLB build\<close>

lemmas glb_defs = extractPartKeyFromCandidate_def sanitizeName_def isNumericToken_def
  partKeyAsDescribed_def stripTrailingLow_def stripInstanceSuffix_def

lemma collectTokens_takeWhile:
  "\<forall>t \<in> set tokens. t \<noteq> [] \<Longrightarrow>
     collectTokens tokens i acc = acc @ takeWhile (\<lambda>t. \<not> prefix ''mat'' t) (drop i tokens)"
proof (induction tokens i acc rule: collectTokens.induct)
  case (1 tokens i collected)
  show ?case
  proof (cases "i < length tokens")
    case False
    then show ?thesis by (subst collectTokens.simps) simp
  next
    case True
    then have d: "drop i tokens = tokens ! i # drop (Suc i) tokens"
      by (simp add: Cons_nth_drop_Suc)
    from True 1(3) have ne: "tokens ! i \<noteq> []" by simp
    show ?thesis
    proof (cases "prefix ''mat'' (tokens ! i)")
      case True
      with \<open>i < length tokens\<close> ne d show ?thesis
        by (subst collectTokens.simps) simp
    next
      case False
      with \<open>i < length tokens\<close> ne d 1(2) [OF \<open>i < length tokens\<close> refl ne False 1(3)]
      show ?thesis
        by (subst collectTokens.simps) simp
    qed
  qed
qed

lemma findIndex_dropWhile:
  "findIndex P xs = (if dropWhile (\<lambda>x. \<not> P x) xs = [] then None
                     else Some (length (takeWhile (\<lambda>x. \<not> P x) xs)))"
  by (induction xs) auto

lemma drop_takeWhile_dropWhile: "drop (length (takeWhile Q xs)) xs = dropWhile Q xs"
  by (induction xs) auto

lemma not_digit_underscore: "\<not> isDigit CHR ''_''"
  by (simp add: isDigit_def)

lemma takeWhile_digits_snoc:
  "takeWhile isDigit (xs @ [c]) =
     (if list_all isDigit xs then xs @ (if isDigit c then [c] else []) else takeWhile isDigit xs)"
  by (induction xs) auto

lemma stripInstanceSuffix_all_digits:
  "list_all isDigit cs \<Longrightarrow> stripInstanceSuffix cs = cs"
  by (simp add: stripInstanceSuffix_def list_all_iff takeWhile_eq_all_conv [THEN iffD2])

lemma stripInstanceSuffix_Cons:
  assumes "\<not> (c = CHR ''_'' \<and> cs \<noteq> [] \<and> list_all isDigit cs)"
  shows "stripInstanceSuffix (c # cs) = c # stripInstanceSuffix cs"
proof (cases "list_all isDigit cs")
  case True
  then have r: "list_all isDigit (rev cs)" by (simp add: list_all_iff)
  have t: "takeWhile isDigit (rev cs @ [c]) = rev cs @ (if isDigit c then [c] else [])"
    using r by (simp add: takeWhile_digits_snoc)
  have "stripInstanceSuffix (c # cs) = c # cs"
  proof (cases "isDigit c")
    case True
    then show ?thesis
      unfolding stripInstanceSuffix_def Let_def rev.simps t by simp
  next
    case False
    with assms \<open>list_all isDigit cs\<close> show ?thesis
      unfolding stripInstanceSuffix_def Let_def rev.simps t by auto
  qed
  with True show ?thesis
    by (simp add: stripInstanceSuffix_all_digits)
next
  case False
  then have r: "\<not> list_all isDigit (rev cs)" by (simp add: list_all_iff)
  then have t: "takeWhile isDigit (rev cs @ [c]) = takeWhile isDigit (rev cs)"
    by (simp add: takeWhile_digits_snoc)
  from r have "takeWhile isDigit (rev cs) \<noteq> rev cs"
    by (auto simp: list_all_iff takeWhile_eq_all_conv)
  then have len: "length (takeWhile isDigit (rev cs)) < length (rev cs)"
    using length_takeWhile_le [of isDigit "rev cs"] takeWhile_eq_take [of isDigit "rev cs"]
    by (cases "length (takeWhile isDigit (rev cs)) = length (rev cs)") auto
  from len obtain b front where b: "drop (length (takeWhile isDigit (rev cs))) (rev cs) = b # front"
    by (cases "drop (length (takeWhile isDigit (rev cs))) (rev cs)") auto
  from len show ?thesis
    unfolding stripInstanceSuffix_def Let_def rev.simps t
    by (simp add: b)
qed

lemma removeTrailingNumber_eq: "removeTrailingNumber s = stripInstanceSuffix s"
proof (induction s)
  case Nil
  show ?case by (simp add: stripInstanceSuffix_def)
next
  case (Cons c cs)
  show ?case
  proof (cases "c = CHR ''_'' \<and> cs \<noteq> [] \<and> list_all isDigit cs")
    case True
    then have "list_all isDigit (rev cs)" by (simp add: list_all_iff)
    then have t: "takeWhile isDigit (rev cs @ [c]) = rev cs"
      using True by (simp add: takeWhile_digits_snoc not_digit_underscore)
    have "stripInstanceSuffix (c # cs) = []"
      unfolding stripInstanceSuffix_def Let_def rev.simps t using True by simp
    with True show ?thesis by simp
  next
    case False
    then have "removeTrailingNumber (c # cs) = c # removeTrailingNumber cs"
      by auto
    with Cons show ?thesis
      using stripInstanceSuffix_Cons [OF False] by simp
  qed
qed

lemma if_chain:
  "(a \<Longrightarrow> b) \<Longrightarrow> (b \<Longrightarrow> r = None) \<Longrightarrow> (if a then None else if b then None else r) = r"
  by auto

text \<open>
  C8, as the code has it. The extraction does what the description says, with one
  difference: \<open>_low\<close> is removed wherever the string ends after it or a character
  other than a letter, a digit or the underscore follows it, not only at the end of the
  candidate.
\<close>

theorem extractPartKeyFromCandidate_described:
  "extractPartKeyFromCandidate None = None
   \<and> extractPartKeyFromCandidate (Some v) = partKeyAsDescribed removeLow v"
proof -
  let ?tokens = "filter (\<lambda>t. t \<noteq> []) (split CHR ''_'' (sanitizeName v))"
  let ?from = "dropWhile (\<lambda>t. \<not> isNumericToken t) ?tokens"
  let ?index = "length (takeWhile (\<lambda>t. \<not> isNumericToken t) ?tokens)"
  let ?collected = "takeWhile (\<lambda>t. \<not> prefix ''mat'' t) ?from"
  let ?result = "if length ?collected \<ge> 2
                 then Some (removeTrailingNumber (join CHR ''_'' ?collected)) else None"
  have ne: "\<forall>t \<in> set ?tokens. t \<noteq> []" by simp
  have collected: "collectTokens ?tokens ?index [] = ?collected"
    using collectTokens_takeWhile [OF ne, of ?index "[]"]
    by (simp only: drop_takeWhile_dropWhile append_Nil)
  have described: "partKeyAsDescribed removeLow v = ?result"
    by (simp add: partKeyAsDescribed_def sanitizeName_def removeTrailingNumber_eq Let_def)
  have index: "findIndex isNumericToken ?tokens = (if ?from = [] then None else Some ?index)"
    by (rule findIndex_dropWhile)
  have code: "extractPartKeyFromCandidate (Some v) =
                (if v = [] then None else if ?from = [] then None else ?result)"
    unfolding extractPartKeyFromCandidate_def Let_def option.case index
    by (simp only: collected option.case if_distrib [of "case_option _ _"] cong: if_cong)
  have empty: "v = [] \<Longrightarrow> ?from = []"
    by (simp add: sanitizeName_def normalizeKey_def toLowerCase_def)
  have "(if length (takeWhile (\<lambda>t. \<not> prefix ''mat'' t) xs) \<ge> 2
         then Some (removeTrailingNumber (join CHR ''_'' (takeWhile (\<lambda>t. \<not> prefix ''mat'' t) xs)))
         else None) = None" if "xs = []" for xs :: "string list"
    using that by simp
  from this [of ?from] have none: "?from = [] \<Longrightarrow> ?result = None" .
  have "extractPartKeyFromCandidate (Some v) = partKeyAsDescribed removeLow v"
    unfolding code described by (rule if_chain [OF empty none])
  then show ?thesis
    by (simp add: extractPartKeyFromCandidate_def)
qed


text \<open>The theorem at the candidate \<open>Pump 4_Screw_1_low\<close>, whose key is \<open>4_screw\<close>.\<close>

theorem extractPartKeyFromCandidate_described_witness:
  "partKeyAsDescribed removeLow ''Pump 4_Screw_1_low'' = Some ''4_screw''"
proof -
  have "extractPartKeyFromCandidate (Some ''Pump 4_Screw_1_low'') = Some ''4_screw''"
    by (simp add: extractPartKeyFromCandidate_def sanitizeName_def isNumericToken_def
        char_defs prefix_code)
  with extractPartKeyFromCandidate_described [of "''Pump 4_Screw_1_low''"]
  show ?thesis by simp
qed

text \<open>
  C8 as stated fails: for the candidate \<open>4_screw_low.001\<close> the code removes the
  \<open>_low\<close> before the dot and returns \<open>4_screw001\<close>, and stripping only a trailing
  \<open>_low\<close> gives \<open>4_screw_low001\<close>.
\<close>

theorem extractPartKeyFromCandidate_counterexample:
  "extractPartKeyFromCandidate (Some ''4_screw_low.001'') = Some ''4_screw001''
   \<and> partKeyAsDescribed stripTrailingLow ''4_screw_low.001'' = Some ''4_screw_low001''"
  by (simp add: glb_defs char_defs prefix_code suffix_to_prefix)

section \<open>Materials of the GLB build\<close>

lemma assignTargets_metalness: "metalness (assignTargets tex targets c) = metalness c"
proof -
  have "metalness (foldl (\<lambda>m target. m\<lparr>slots := (slots m)(target \<mapsto> tex)\<rparr>) c targets) = metalness c"
    by (induction targets arbitrary: c) simp_all
  then show ?thesis by (simp add: assignTargets_def Let_def)
qed

lemma buildChannel_glb_metalness:
  "metalness (snd (buildChannel_glb pKey vKey load acc item)) = metalness (snd acc)"
  by (cases acc; cases item)
     (simp add: buildChannel_glb_def Let_def assignTargets_metalness split: option.splits prod.splits)

lemma buildChannel_glb_calls:
  "length (fst (buildChannel_glb pKey vKey load acc item)) = Suc (length (fst acc))"
  by (cases acc; cases item)
     (simp add: buildChannel_glb_def Let_def split: option.splits prod.splits)

lemma foldl_glb_metalness:
  "metalness (snd (foldl (buildChannel_glb pKey vKey load) acc items)) = metalness (snd acc)"
  by (induction items arbitrary: acc) (simp_all add: buildChannel_glb_metalness)

lemma foldl_glb_calls:
  "length (fst (foldl (buildChannel_glb pKey vKey load) acc items)) = length (fst acc) + length items"
  by (induction items arbitrary: acc) (simp_all add: buildChannel_glb_calls)

lemma build_glb_Some:
  "\<exists>calls created. buildMaterialForMesh_glb load mesh mn = Some (calls, created)
     \<and> metalness created = Some 1 \<and> length calls = 3"
proof -
  obtain calls created where
    f: "foldl (buildChannel_glb (findPartKeyFromObject_glb (Some (object mesh)) mn) (variantKey_glb mesh mn) load)
         ([], candidate_glb) textureMeta_glb = (calls, created)"
    by (cases "foldl (buildChannel_glb (findPartKeyFromObject_glb (Some (object mesh)) mn) (variantKey_glb mesh mn) load)
         ([], candidate_glb) textureMeta_glb")
  have m: "metalness created = Some 1"
    using foldl_glb_metalness [of "findPartKeyFromObject_glb (Some (object mesh)) mn" "variantKey_glb mesh mn" load "([], candidate_glb)" textureMeta_glb]
    unfolding f by (simp add: candidate_glb_def)
  have l: "length calls = 3"
    using foldl_glb_calls [of "findPartKeyFromObject_glb (Some (object mesh)) mn" "variantKey_glb mesh mn" load "([], candidate_glb)" textureMeta_glb]
    unfolding f by (simp add: textureMeta_glb_def)
  from f m l show ?thesis
    by (simp add: buildMaterialForMesh_glb_def Let_def)
qed

text \<open>
  C9. In the GLB build \<open>buildMaterialForMesh\<close> returns a material for every mesh and
  every material name, after one \<open>loadTexture\<close> call per channel. When neither the
  material name, nor the mesh name, nor the part key yields a variant token, the variant
  key is \<open>matmetal\<close>. \<open>applyMaterialsToMesh\<close> assigns the created materials, and never
  the flat default.
\<close>

theorem buildMaterialForMesh_glb_never_null:
  "(\<exists>calls created. buildMaterialForMesh_glb load mesh mn = Some (calls, created)
       \<and> metalness created = Some 1 \<and> length calls = 3)
   \<and> (extractVariantName mn = None
        \<and> extractVariantName (Some (name (object mesh))) = None
        \<and> extractVariantName (findPartKeyFromObject_glb (Some (object mesh)) mn) = None
       \<longrightarrow> variantKey_glb mesh mn = ''matmetal'')
   \<and> applyMaterialsToMesh_glb loads mesh =
       (case material mesh of
          Multi materials \<Rightarrow>
            Multi (map (\<lambda>(i, existing).
                          snd (the (buildMaterialForMesh_glb (loads i) mesh
                                      (Some (material_name existing)))))
                       (enumerate 0 materials))
        | Single existing \<Rightarrow>
            Single (snd (the (buildMaterialForMesh_glb (loads 0) mesh
                                (Some (material_name existing))))))
   \<and> applyMaterialsToMesh_glb loads mesh \<noteq> Single flatDefaultMaterial"
proof -
  have k: "variantKey_glb mesh mn = ''matmetal''"
    if "extractVariantName mn = None
        \<and> extractVariantName (Some (name (object mesh))) = None
        \<and> extractVariantName (findPartKeyFromObject_glb (Some (object mesh)) mn) = None"
    using that
    by (simp add: variantKey_glb_def resolveVariantKey_def normalizeKey_def toLowerCase_def)
  have a: "applyMaterialsToMesh_glb loads mesh =
       (case material mesh of
          Multi materials \<Rightarrow>
            Multi (map (\<lambda>(i, existing).
                          snd (the (buildMaterialForMesh_glb (loads i) mesh
                                      (Some (material_name existing)))))
                       (enumerate 0 materials))
        | Single existing \<Rightarrow>
            Single (snd (the (buildMaterialForMesh_glb (loads 0) mesh
                                (Some (material_name existing))))))"
    by (simp add: applyMaterialsToMesh_glb_def buildMaterialForMesh_glb_def Let_def
        split: MeshMaterial.splits prod.splits)
  have n: "applyMaterialsToMesh_glb loads mesh \<noteq> Single flatDefaultMaterial"
  proof (cases "material mesh")
    case (Multi ms)
    with a show ?thesis by simp
  next
    case (Single existing)
    obtain calls created where
      "buildMaterialForMesh_glb (loads 0) mesh (Some (material_name existing)) = Some (calls, created)"
      "metalness created = Some 1"
      using build_glb_Some by blast
    with a Single show ?thesis
      by (auto simp: flatDefaultMaterial_def)
  qed
  from build_glb_Some k a n show ?thesis by blast
qed


text \<open>
  The theorem at a mesh \<open>housing\<close> with the material \<open>steel\<close>: no name yields a
  token, and the variant key is \<open>matmetal\<close>.
\<close>

theorem buildMaterialForMesh_glb_never_null_witness:
  "variantKey_glb \<lparr>object = Object3D ''housing'' None, material = Single phongMaterial\<rparr>
     (Some ''steel'') = ''matmetal''"
proof -
  let ?mesh = "\<lparr>object = Object3D ''housing'' None, material = Single phongMaterial\<rparr>"
  have p: "findPartKeyFromObject_glb (Some (object ?mesh)) (Some ''steel'') = None"
    by (simp add: findPartKeyFromObject_glb_def extractPartKeyFromCandidate_def
        sanitizeName_def isNumericToken_def char_defs prefix_code)
  have h: "extractVariantName (Some ''steel'') = None
        \<and> extractVariantName (Some (name (object ?mesh))) = None
        \<and> extractVariantName (findPartKeyFromObject_glb (Some (object ?mesh)) (Some ''steel''))
          = None"
    unfolding p by (simp add: extractVariantName_def matchVariantAt_def)
  from buildMaterialForMesh_glb_never_null [of "\<lambda>channel p. None" ?mesh "Some ''steel''"
      "\<lambda>i channel p. None"] h
  show ?thesis by blast
qed

section \<open>The load metrics\<close>

lemmas tracking_defs =
  resetLoadTracking_def updateTotalSizeMetric_def markFirstFrameRendered_def
  toAbsoluteAssetUrl_def commitAssetSize_def recordAssetSize_def markModelLoadStart_def
  markModelLoadEnd_def markTextureLoadStart_def markTextureLoadEnd_def pushTextureDebug_def
  loadTexture_fbx_def onTextureLoaded_fbx_def onTextureError_fbx_def loadTexture_glb_def
  onTextureLoaded_glb_def onTextureError_glb_def disposeResources_def loadTexture_def

lemma sizeInvariant_update:
  "knownPositive (sizeBytes (model (loadMetrics s)))
     \<Longrightarrow> knownPositive (sizeBytes (texturesMetric (loadMetrics s)))
     \<Longrightarrow> sizeInvariant (updateTotalSizeMetric s)"
  by (auto simp: sizeInvariant_def updateTotalSizeMetric_def derivedTotalSize_def
      knownPositive_def Let_def split: option.splits)

lemma sizeInvariant_commit:
  assumes "sizeInvariant s"
  shows "sizeInvariant (commitAssetSize type url known s)"
proof (cases known)
  case None
  with assms show ?thesis by (simp add: commitAssetSize_def)
next
  case (Some k)
  show ?thesis
  proof (cases "k > 0")
    case False
    with Some assms show ?thesis by (simp add: commitAssetSize_def)
  next
    case True
    from assms have pos: "knownPositive (sizeBytes (model (loadMetrics s)))"
      "knownPositive (sizeBytes (texturesMetric (loadMetrics s)))"
      by (simp_all add: sizeInvariant_def)
    show ?thesis
    proof (cases "type = model_asset")
      case True
      with Some \<open>k > 0\<close> pos show ?thesis
        unfolding commitAssetSize_def Let_def
        by (auto intro!: sizeInvariant_update simp: knownPositive_def)
    next
      case False
      with Some \<open>k > 0\<close> pos show ?thesis
        unfolding commitAssetSize_def Let_def
        by (auto intro!: sizeInvariant_update simp: knownPositive_def split: option.splits)
    qed
  qed
qed

lemma sizeInvariant_record:
  "sizeInvariant s \<Longrightarrow> sizeInvariant (recordAssetSize type p probe s)"
  by (simp add: recordAssetSize_def Let_def sizeInvariant_commit)

lemma sizeInvariant_cong:
  "sizeBytes (model (loadMetrics s')) = sizeBytes (model (loadMetrics s))
   \<Longrightarrow> sizeBytes (texturesMetric (loadMetrics s')) = sizeBytes (texturesMetric (loadMetrics s))
   \<Longrightarrow> sizeBytes (total (loadMetrics s')) = sizeBytes (total (loadMetrics s))
   \<Longrightarrow> sizeInvariant s \<Longrightarrow> sizeInvariant s'"
  by (simp add: sizeInvariant_def derivedTotalSize_def)

lemma sizeInvariant_textureStart:
  "sizeInvariant s \<Longrightarrow> sizeInvariant (markTextureLoadStart now s)"
  by (rule sizeInvariant_cong [of _ s]) (simp_all add: markTextureLoadStart_def split: option.splits)

lemma sizeInvariant_textureEnd:
  "sizeInvariant s \<Longrightarrow> sizeInvariant (markTextureLoadEnd now p probe s)"
  unfolding markTextureLoadEnd_def Let_def
  by (rule sizeInvariant_record, rule sizeInvariant_cong [of _ s])
     (simp_all split: option.splits)

lemma sizeInvariant_modelEnd:
  "sizeInvariant s \<Longrightarrow> sizeInvariant (markModelLoadEnd now p probe s)"
  unfolding markModelLoadEnd_def Let_def
  by (rule sizeInvariant_record, rule sizeInvariant_cong [of _ s])
     (simp_all split: option.splits)

lemma sizeInvariant_firstFrame:
  assumes "sizeInvariant s"
  shows "sizeInvariant (markFirstFrameRendered now s)"
proof (cases "hasRenderedFirstFrame s \<or> loading s")
  case True
  with assms show ?thesis by (simp add: markFirstFrameRendered_def)
next
  case False
  from assms have pos: "knownPositive (sizeBytes (model (loadMetrics s)))"
    "knownPositive (sizeBytes (texturesMetric (loadMetrics s)))"
    by (simp_all add: sizeInvariant_def)
  have "sizeInvariant (updateTotalSizeMetric
          (s\<lparr>hasRenderedFirstFrame := True,
             loadMetrics := (loadMetrics s)
               \<lparr>total := (total (loadMetrics s))\<lparr>durationMs := Some now\<rparr>\<rparr>\<rparr>))"
    by (rule sizeInvariant_update) (simp_all add: pos)
  with False show ?thesis by (simp add: markFirstFrameRendered_def)
qed

lemma sizeInvariant_push:
  "sizeInvariant s \<Longrightarrow> sizeInvariant (pushTextureDebug entry s)"
  by (rule sizeInvariant_cong [of _ s]) (simp_all add: pushTextureDebug_def)

lemma sizeInvariant_step: "sizeInvariant s \<Longrightarrow> sizeInvariant (step b e s)"
proof (cases e)
  case ResetLoadTracking
  then show ?thesis
    by (simp add: resetLoadTracking_def sizeInvariant_def derivedTotalSize_def knownPositive_def
        nullMetric_def)
next
  case CreateLoaders
  assume "sizeInvariant s"
  then show ?thesis
    unfolding CreateLoaders
    by (cases b) (auto intro: sizeInvariant_cong [of _ s])
next
  case LoadingDone
  assume "sizeInvariant s"
  then show ?thesis
    unfolding LoadingDone by (auto intro: sizeInvariant_cong [of _ s])
next
  case (LoadTexture now p)
  assume "sizeInvariant s"
  then show ?thesis
    unfolding LoadTexture
    by (cases b)
       (auto simp: loadTexture_def loadTexture_fbx_def loadTexture_glb_def
         sizeInvariant_textureStart split: option.splits)
next
  case (TextureLoaded now p texture probe pKey v)
  assume "sizeInvariant s"
  then have "sizeInvariant (s\<lparr>textureCache := (textureCache s)(p \<mapsto> texture)\<rparr>)"
    by (auto intro: sizeInvariant_cong [of _ s])
  then show ?thesis
    unfolding TextureLoaded
    by (cases b)
       (simp_all add: onTextureLoaded_fbx_def onTextureLoaded_glb_def sizeInvariant_textureEnd
         sizeInvariant_push)
next
  case (TextureFailed now p probe pKey v)
  assume "sizeInvariant s"
  then show ?thesis
    unfolding TextureFailed
    by (cases b)
       (simp_all add: onTextureError_fbx_def onTextureError_glb_def sizeInvariant_textureEnd
         sizeInvariant_push)
next
  case DisposeResources
  assume "sizeInvariant s"
  then show ?thesis
    unfolding DisposeResources
    by (auto simp: disposeResources_def intro: sizeInvariant_cong [of _ s])
next
  case (ModelLoadStart now)
  assume "sizeInvariant s"
  then show ?thesis
    unfolding ModelLoadStart
    by (auto simp: markModelLoadStart_def intro: sizeInvariant_cong [of _ s])
qed (simp_all add: sizeInvariant_firstFrame sizeInvariant_modelEnd sizeInvariant_commit)

lemma sizeInvariant_run: "sizeInvariant s \<Longrightarrow> sizeInvariant (run b events s)"
  unfolding run_def
  by (induction events arbitrary: s) (simp_all add: sizeInvariant_step)

lemma sizeInvariant_initial: "sizeInvariant initialState"
  by (simp add: sizeInvariant_def initialState_def derivedTotalSize_def knownPositive_def
      nullMetric_def)

lemma totalDuration_record:
  "durationMs (total (loadMetrics (recordAssetSize type p probe s))) = durationMs (total (loadMetrics s))"
  by (simp add: recordAssetSize_def commitAssetSize_def updateTotalSizeMetric_def Let_def
      split: option.splits)

lemma totalDuration_step:
  "durationMs (total (loadMetrics (step b e s))) =
     (case e of
        ResetLoadTracking \<Rightarrow> None
      | FirstFrame now \<Rightarrow>
          if hasRenderedFirstFrame s \<or> loading s then durationMs (total (loadMetrics s))
          else Some now
      | _ \<Rightarrow> durationMs (total (loadMetrics s)))"
  by (cases e; cases b)
     (simp_all add: tracking_defs nullMetric_def Let_def split: option.splits)

text \<open>
  C3, as the code has it. In every state the viewer reaches, the total size is derived
  from the model and texture sizes: it is their sum when either is known and unknown
  when both are unknown. The total duration is not derived from the two durations: only
  \<open>resetLoadTracking\<close>, which clears it, and \<open>markFirstFrameRendered\<close> write it, and
  the latter stores the clock reading of the first frame rendered after loading ended.
\<close>

theorem total_metrics:
  "sizeBytes (total (loadMetrics (run b events initialState)))
     = derivedTotalSize (loadMetrics (run b events initialState))
   \<and> durationMs (total (loadMetrics (step b e (run b events initialState)))) =
       (case e of
          ResetLoadTracking \<Rightarrow> None
        | FirstFrame now \<Rightarrow>
            if hasRenderedFirstFrame (run b events initialState)
               \<or> loading (run b events initialState)
            then durationMs (total (loadMetrics (run b events initialState)))
            else Some now
        | _ \<Rightarrow> durationMs (total (loadMetrics (run b events initialState))))"
  using sizeInvariant_run [OF sizeInvariant_initial, of b events]
  by (simp add: sizeInvariant_def totalDuration_step)

text \<open>
  The theorem at a run that loads one texture of 2048 bytes and a model of 4096 bytes and
  renders its first frame at 75 ms.
\<close>

theorem total_metrics_witness:
  "sizeBytes (total (loadMetrics (run FBX (exampleRun 75) initialState))) = Some (4096 + 2048)
   \<and> durationMs (total (loadMetrics
        (step FBX (FirstFrame 80) (run FBX (exampleRun 75) initialState)))) = Some 75"
proof -
  have sizes: "sizeBytes (model (loadMetrics (run FBX (exampleRun 75) initialState))) = Some 4096"
    "sizeBytes (texturesMetric (loadMetrics (run FBX (exampleRun 75) initialState))) = Some 2048"
    by (simp_all add: run_def exampleRun_def initialState_def nullMetric_def tracking_defs
        Let_def)
  have rendered: "hasRenderedFirstFrame (run FBX (exampleRun 75) initialState)"
    "durationMs (total (loadMetrics (run FBX (exampleRun 75) initialState))) = Some 75"
    by (simp_all add: run_def exampleRun_def initialState_def nullMetric_def tracking_defs
        Let_def)
  from total_metrics [of FBX "exampleRun 75" "FirstFrame 80"] sizes rendered
  show ?thesis
    by (simp add: derivedTotalSize_def del: step.simps)
qed

text \<open>
  C3 as stated fails for the duration: two runs that differ only in the time of the
  first frame have the same model duration, 50 ms, and the same texture duration, 30 ms,
  and the total durations 75 ms and 90 ms.
\<close>

theorem total_duration_counterexample:
  "durationMs (model (loadMetrics (run FBX (exampleRun 75) initialState))) = Some 50
   \<and> durationMs (texturesMetric (loadMetrics (run FBX (exampleRun 75) initialState))) = Some 30
   \<and> durationMs (total (loadMetrics (run FBX (exampleRun 75) initialState))) = Some 75
   \<and> durationMs (model (loadMetrics (run FBX (exampleRun 90) initialState))) = Some 50
   \<and> durationMs (texturesMetric (loadMetrics (run FBX (exampleRun 90) initialState))) = Some 30
   \<and> durationMs (total (loadMetrics (run FBX (exampleRun 90) initialState))) = Some 90"
  by (simp add: run_def exampleRun_def initialState_def nullMetric_def tracking_defs Let_def)

section \<open>The duration of a group of texture loads\<close>

lemma tracking_record:
  "textureTracking (recordAssetSize type p probe s) = textureTracking s"
  by (simp add: textureTracking_def recordAssetSize_def commitAssetSize_def
      updateTotalSizeMetric_def Let_def split: option.splits)

lemma tracking_commit:
  "textureTracking (commitAssetSize type p probe s) = textureTracking s"
  by (simp add: textureTracking_def commitAssetSize_def updateTotalSizeMetric_def Let_def
      split: option.splits)

lemma tracking_push: "textureTracking (pushTextureDebug entry s) = textureTracking s"
  by (simp add: textureTracking_def pushTextureDebug_def)

lemma tracking_start:
  "textureTracking (markTextureLoadStart now s) = afterStart now (textureTracking s)"
  by (simp add: textureTracking_def afterStart_def markTextureLoadStart_def Let_def
      split: option.splits)

lemma tracking_end:
  "textureTracking (markTextureLoadEnd now p probe s) = afterEnd now (textureTracking s)"
  unfolding markTextureLoadEnd_def Let_def tracking_record
  by (auto simp: textureTracking_def afterEnd_def split: option.splits)

lemma tracking_cache:
  "textureTracking (s\<lparr>textureCache := c\<rparr>) = textureTracking s"
  by (simp add: textureTracking_def)

lemma tracking_step:
  "textureTracking (step b e s) =
     (case e of
        ResetLoadTracking \<Rightarrow> (0, None, None)
      | LoadTexture now p \<Rightarrow>
          if fst (loadTexture b now p s) = Requested then afterStart now (textureTracking s)
          else textureTracking s
      | TextureLoaded now p texture probe pKey v \<Rightarrow> afterEnd now (textureTracking s)
      | TextureFailed now p probe pKey v \<Rightarrow> afterEnd now (textureTracking s)
      | _ \<Rightarrow> textureTracking s)"
proof (cases e)
  case ResetLoadTracking
  then show ?thesis by (simp add: textureTracking_def resetLoadTracking_def nullMetric_def)
next
  case (FirstFrame now)
  then show ?thesis
    by (simp add: textureTracking_def markFirstFrameRendered_def updateTotalSizeMetric_def Let_def)
next
  case (ModelLoadStart now)
  then show ?thesis by (simp add: textureTracking_def markModelLoadStart_def)
next
  case (ModelLoadEnd now p probe)
  then show ?thesis
    by (simp add: markModelLoadEnd_def Let_def tracking_record)
       (simp add: textureTracking_def split: option.splits)
next
  case (LoadTexture now p)
  then show ?thesis
    by (cases b)
       (simp_all add: loadTexture_def loadTexture_fbx_def loadTexture_glb_def tracking_start
         split: option.splits)
next
  case (TextureLoaded now p texture probe pKey v)
  then show ?thesis
    by (cases b)
       (simp_all add: onTextureLoaded_fbx_def onTextureLoaded_glb_def tracking_push tracking_end
         tracking_cache)
next
  case (TextureFailed now p probe pKey v)
  then show ?thesis
    by (cases b)
       (simp_all add: onTextureError_fbx_def onTextureError_glb_def tracking_push tracking_end)
next
  case (SizeProbed type url known)
  then show ?thesis by (simp add: tracking_commit)
next
  case CreateLoaders
  then show ?thesis by (cases b) (simp_all add: textureTracking_def)
qed (simp_all add: textureTracking_def disposeResources_def)

lemma trackingSound_step: "trackingSound s \<Longrightarrow> trackingSound (step b e s)"
proof -
  have sound: "trackingSound s = (case textureTracking s of (n, started, duration) \<Rightarrow> 0 \<le> n \<and> (n = 0) = (started = None))" for s
    by (simp add: trackingSound_def textureTracking_def)
  assume "trackingSound s"
  then show ?thesis
    unfolding sound tracking_step
    by (cases "textureTracking s"; cases e)
       (auto simp: afterStart_def afterEnd_def split: option.splits if_splits)
qed

lemma trackingSound_run: "trackingSound s \<Longrightarrow> trackingSound (run b events s)"
  unfolding run_def by (induction events arbitrary: s) (simp_all add: trackingSound_step)

lemma trackingSound_initial: "trackingSound initialState"
  by (simp add: trackingSound_def initialState_def)

lemma groupOpen_tracking:
  "groupOpen started s = (case textureTracking s of (n, st, duration) \<Rightarrow> 0 < n \<and> st = Some started \<and> duration = None)"
  by (simp add: groupOpen_def textureTracking_def)

lemma step_first:
  assumes "textureLoadsInFlight s = 0" "textureLoadStart s = None"
    and "0 < textureLoadsInFlight (step b e s)"
  shows "groupOpen (eventTime e) (step b e s) \<and> isRequest e"
proof -
  from assms(3) have "0 < fst (textureTracking (step b e s))"
    by (simp add: textureTracking_def)
  with assms(1,2) show ?thesis
    unfolding groupOpen_tracking tracking_step
    by (cases e)
       (auto simp: afterStart_def afterEnd_def textureTracking_def split: option.splits if_splits)
qed

lemma step_open:
  assumes "groupOpen started s" "e \<noteq> ResetLoadTracking"
    and "0 < textureLoadsInFlight (step b e s)"
  shows "groupOpen started (step b e s)"
proof -
  from assms(3) have "0 < fst (textureTracking (step b e s))"
    by (simp add: textureTracking_def)
  with assms(1,2) show ?thesis
    unfolding groupOpen_tracking tracking_step
    by (cases e; cases "textureTracking s")
       (auto simp: afterStart_def afterEnd_def split: option.splits if_splits)
qed

lemma step_last:
  assumes "groupOpen started s" "e \<noteq> ResetLoadTracking"
    and "textureLoadsInFlight (step b e s) = 0"
  shows "durationMs (texturesMetric (loadMetrics (step b e s))) = Some (eventTime e - started)
         \<and> isCompletion e"
proof -
  from assms(3) have "fst (textureTracking (step b e s)) = 0"
    by (simp add: textureTracking_def)
  moreover have "durationMs (texturesMetric (loadMetrics (step b e s)))
                   = snd (snd (textureTracking (step b e s)))"
    by (simp add: textureTracking_def)
  ultimately show ?thesis
    using assms(1,2)
    unfolding groupOpen_tracking tracking_step
    by (cases e; cases "textureTracking s")
       (auto simp: afterStart_def afterEnd_def split: option.splits if_splits)
qed


lemma run_snoc: "run b (events @ [e]) s = step b e (run b events s)"
  by (simp add: run_def)

lemma run_take_Suc:
  "k < length events \<Longrightarrow> run b (take (Suc k) events) s = step b (events ! k) (run b (take k events) s)"
  by (simp add: take_Suc_conv_app_nth run_snoc)

lemma group_stays_open:
  assumes quiet: "textureLoadsInFlight s0 = 0" "textureLoadStart s0 = None"
    and noreset: "ResetLoadTracking \<notin> set events"
    and inflight: "\<forall>k. 0 < k \<and> k < length events
                     \<longrightarrow> 0 < textureLoadsInFlight (run b (take k events) s0)"
  shows "0 < k \<Longrightarrow> k < length events
           \<Longrightarrow> groupOpen (eventTime (hd events)) (run b (take k events) s0) \<and> isRequest (hd events)"
proof (induction k)
  case 0
  then show ?case by simp
next
  case (Suc k)
  show ?case
  proof (cases "k = 0")
    case True
    from Suc.prems have ne: "events \<noteq> []" by auto
    then have one: "run b (take (Suc 0) events) s0 = step b (hd events) s0"
      by (cases events) (simp_all add: run_def)
    from inflight Suc.prems True have "0 < textureLoadsInFlight (run b (take (Suc 0) events) s0)"
      by simp
    with one quiet True show ?thesis
      using step_first [of s0 b "hd events"] by simp
  next
    case False
    with Suc have ih: "groupOpen (eventTime (hd events)) (run b (take k events) s0)"
      "isRequest (hd events)" by simp_all
    from Suc.prems have k: "k < length events" by simp
    then have "events ! k \<in> set events" by simp
    with noreset have nr: "events ! k \<noteq> ResetLoadTracking" by auto
    from inflight Suc.prems have "0 < textureLoadsInFlight (run b (take (Suc k) events) s0)"
      by simp
    then have "0 < textureLoadsInFlight (step b (events ! k) (run b (take k events) s0))"
      by (simp add: run_take_Suc [OF k])
    from step_open [OF ih(1) nr this] ih(2) show ?thesis
      by (simp add: run_take_Suc [OF k])
  qed
qed

text \<open>
  C5. Take a state the viewer reaches with no texture load in flight, and a run of at
  least two events, none of them \<open>resetLoadTracking\<close>, during which the in-flight
  counter is positive after every event but the last and zero after the last. Then the
  first event is a texture request and the last a completion, the texture duration is
  unknown after every event but the last, and after the last it is the clock reading of
  that completion minus the clock reading of the first request.
\<close>

theorem texture_duration_group:
  assumes reach: "s0 = run b earlier initialState"
    and quiet: "textureLoadsInFlight s0 = 0"
    and len: "2 \<le> length events"
    and noreset: "ResetLoadTracking \<notin> set events"
    and inflight: "\<forall>k. 0 < k \<and> k < length events
                     \<longrightarrow> 0 < textureLoadsInFlight (run b (take k events) s0)"
    and settled: "textureLoadsInFlight (run b events s0) = 0"
  shows "durationMs (texturesMetric (loadMetrics (run b events s0)))
           = Some (eventTime (last events) - eventTime (hd events))
     \<and> (\<forall>k. 0 < k \<and> k < length events
           \<longrightarrow> durationMs (texturesMetric (loadMetrics (run b (take k events) s0))) = None)
     \<and> isRequest (hd events) \<and> isCompletion (last events)"
proof -
  have "trackingSound s0"
    unfolding reach by (rule trackingSound_run [OF trackingSound_initial])
  with quiet have start: "textureLoadStart s0 = None"
    by (simp add: trackingSound_def)
  note open_at = group_stays_open [OF quiet start noreset inflight]
  from len have ne: "events \<noteq> []" by auto
  define n where "n = length events - 1"
  with len have n: "0 < n" "n < length events" "Suc n = length events" by simp_all
  from ne n have split: "events = take n events @ [last events]"
    by (metis append_butlast_last_id butlast_conv_take n_def)
  have last_nth: "events ! n = last events"
    using ne n by (simp add: last_conv_nth n_def)
  from ne have "last events \<in> set events" by simp
  with noreset have nr: "last events \<noteq> ResetLoadTracking" by auto
  have full: "run b events s0 = step b (last events) (run b (take n events) s0)"
    using run_take_Suc [OF n(2), of b s0] n(3) last_nth by simp
  from open_at [OF n(1) n(2)]
  have o: "groupOpen (eventTime (hd events)) (run b (take n events) s0)" "isRequest (hd events)"
    by simp_all
  from settled have "textureLoadsInFlight (step b (last events) (run b (take n events) s0)) = 0"
    by (simp add: full)
  from step_last [OF o(1) nr this]
  have final: "durationMs (texturesMetric (loadMetrics (run b events s0)))
                 = Some (eventTime (last events) - eventTime (hd events))"
    "isCompletion (last events)"
    by (simp_all add: full)
  have before: "durationMs (texturesMetric (loadMetrics (run b (take k events) s0))) = None"
    if "0 < k \<and> k < length events" for k
    using open_at [of k] that by (simp add: groupOpen_def)
  from final before o(2) show ?thesis by blast
qed

text \<open>
  The theorem at two requests, at 20 ms and 25 ms, that complete at 40 ms and 70 ms:
  the duration is 50 ms.
\<close>

theorem texture_duration_group_witness:
  "durationMs (texturesMetric (loadMetrics
     (run GLB [LoadTexture 20 ''a.ktx2'', LoadTexture 25 ''b.ktx2'',
               TextureLoaded 40 ''a.ktx2'' 1 None None None,
               TextureFailed 70 ''b.ktx2'' None None None]
        (run GLB [CreateLoaders] initialState)))) = Some 50"
proof -
  let ?s0 = "run GLB [CreateLoaders] initialState"
  let ?events = "[LoadTexture 20 ''a.ktx2'', LoadTexture 25 ''b.ktx2'',
               TextureLoaded 40 ''a.ktx2'' 1 None None None,
               TextureFailed 70 ''b.ktx2'' None None None]"
  have evalk: "(\<forall>k. 0 < k \<and> k < length ?events \<longrightarrow> P k) = (P 1 \<and> P 2 \<and> P 3)" for P
  proof -
    have "(0 < k \<and> k < length ?events) = (k = 1 \<or> k = 2 \<or> k = 3)" for k :: nat
      by auto
    then show ?thesis by (simp only:) auto
  qed
  have h1: "?s0 = run GLB [CreateLoaders] initialState" by simp
  have h2: "textureLoadsInFlight ?s0 = 0"
    by (simp add: run_def initialState_def)
  have h3: "2 \<le> length ?events" by simp
  have h4: "ResetLoadTracking \<notin> set ?events" by simp
  have h5: "\<forall>k. 0 < k \<and> k < length ?events
              \<longrightarrow> 0 < textureLoadsInFlight (run GLB (take k ?events) ?s0)"
    unfolding evalk
    by (simp add: run_def initialState_def nullMetric_def tracking_defs isKtx2_def
        toLowerCase_def lowerChar_def asciiUpper_def asciiLower_def suffix_to_prefix prefix_code
        Let_def numeral_2_eq_2 numeral_3_eq_3)
  have h6: "textureLoadsInFlight (run GLB ?events ?s0) = 0"
    by (simp add: run_def initialState_def nullMetric_def tracking_defs isKtx2_def
        toLowerCase_def lowerChar_def asciiUpper_def asciiLower_def suffix_to_prefix prefix_code
        Let_def)
  from texture_duration_group [OF h1 h2 h3 h4 h5 h6] show ?thesis by simp
qed

section \<open>The texture cache\<close>

lemma cache_commit: "textureCache (commitAssetSize type url known s) = textureCache s"
  by (simp add: commitAssetSize_def updateTotalSizeMetric_def Let_def split: option.splits)

lemma cache_record: "textureCache (recordAssetSize type p probe s) = textureCache s"
  by (simp add: recordAssetSize_def Let_def cache_commit)

lemma cache_end: "textureCache (markTextureLoadEnd now p probe s) = textureCache s"
  by (simp add: markTextureLoadEnd_def Let_def cache_record split: option.splits)

lemma cache_start: "textureCache (markTextureLoadStart now s) = textureCache s"
  by (simp add: markTextureLoadStart_def Let_def split: option.splits)

lemma cache_modelEnd: "textureCache (markModelLoadEnd now p probe s) = textureCache s"
  by (simp add: markModelLoadEnd_def Let_def cache_record split: option.splits)

lemma cache_step:
  "textureCache (step b e s) =
     (case e of
        DisposeResources \<Rightarrow> Map.empty
      | TextureLoaded now q texture probe pKey v \<Rightarrow> (textureCache s)(q \<mapsto> texture)
      | _ \<Rightarrow> textureCache s)"
proof (cases e)
  case (LoadTexture now p)
  then show ?thesis
    by (cases b)
       (simp_all add: loadTexture_def loadTexture_fbx_def loadTexture_glb_def cache_start
         split: option.splits)
next
  case (TextureLoaded now q texture probe pKey v)
  then show ?thesis
    by (cases b)
       (simp_all add: onTextureLoaded_fbx_def onTextureLoaded_glb_def pushTextureDebug_def
         cache_end)
next
  case (TextureFailed now q probe pKey v)
  then show ?thesis
    by (cases b)
       (simp_all add: onTextureError_fbx_def onTextureError_glb_def pushTextureDebug_def
         cache_end)
next
  case CreateLoaders
  then show ?thesis by (cases b) simp_all
qed (simp_all add: resetLoadTracking_def markFirstFrameRendered_def updateTotalSizeMetric_def
      markModelLoadStart_def cache_modelEnd cache_commit disposeResources_def Let_def)

lemma cache_kept: "keepsTexture p e \<Longrightarrow> textureCache (step b e s) p = textureCache s p"
  by (cases e) (simp_all add: cache_step del: step.simps)

lemma cache_kept_run:
  "list_all (keepsTexture p) events \<Longrightarrow> textureCache (run b events s) p = textureCache s p"
  unfolding run_def
  by (induction events arbitrary: s) (simp_all add: cache_kept)

lemma loadTexture_hit:
  "textureCache s p = Some texture \<Longrightarrow> loadTexture b now p s = (Resolved texture, s)"
  by (cases b) (simp_all add: loadTexture_def loadTexture_fbx_def loadTexture_glb_def)

lemma loadTexture_miss:
  "textureCache s p = None \<Longrightarrow> loaderReady b p s
     \<Longrightarrow> loadTexture b now p s = (Requested, markTextureLoadStart now s)"
  by (cases b)
     (simp_all add: loadTexture_def loadTexture_fbx_def loadTexture_glb_def loaderReady_def)

text \<open>
  C4, as the code has it. A call of \<open>loadTexture\<close> for a path that is not cached,
  with the loader there, starts one fetch. Once the success callback of a load of that
  path has run with a texture, and as long as the cache is not disposed of and no other
  load of the path completes, every call of \<open>loadTexture\<close> for the path resolves to
  that texture, served from the cache, and starts no fetch: it leaves the state as it is.
\<close>

theorem loadTexture_served_from_cache:
  assumes "textureCache s p = None"
    and "loaderReady b p s"
    and "list_all (keepsTexture p) later"
  shows "fst (loadTexture b t1 p s) = Requested
     \<and> (let s1 = run b meanwhile (snd (loadTexture b t1 p s));
             s2 = step b (TextureLoaded t2 p texture probe pKey v) s1;
             s3 = run b later s2
         in loadTexture b t3 p s3 = (Resolved texture, s3))"
proof -
  have "textureCache (run b later (step b (TextureLoaded t2 p texture probe pKey v) s1)) p
          = Some texture" for s1
    using assms(3) by (simp add: cache_kept_run cache_step del: step.simps)
  then show ?thesis
    using assms(1,2) by (simp add: loadTexture_miss loadTexture_hit Let_def del: step.simps)
qed

text \<open>The theorem at a first call, its completion with the texture 7, and a second call.\<close>

theorem loadTexture_served_from_cache_witness:
  "loadTexture FBX 9 gearTexture
     (run FBX [CreateLoaders, LoadTexture 1 gearTexture,
               TextureLoaded 3 gearTexture 7 None None None] initialState)
   = (Resolved 7, run FBX [CreateLoaders, LoadTexture 1 gearTexture,
               TextureLoaded 3 gearTexture 7 None None None] initialState)"
proof -
  let ?s = "run FBX [CreateLoaders] initialState"
  have h1: "textureCache ?s gearTexture = None" by (simp add: run_def initialState_def)
  have h2: "loaderReady FBX gearTexture ?s" by (simp add: run_def initialState_def loaderReady_def)
  have h3: "list_all (keepsTexture gearTexture) []" by simp
  from loadTexture_served_from_cache [OF h1 h2 h3, of 1 "[]" 3 7 None None None 9]
  show ?thesis by (simp add: run_def Let_def)
qed

text \<open>
  C4 as stated fails. A load that failed is fetched again by the next call; without a
  loader both calls reject and nothing is fetched; and two calls made before the first
  load completes both go to the loader, whose second texture replaces the first in the
  cache.
\<close>

theorem loadTexture_counterexample:
  "fst (loadTexture FBX 1 gearTexture (run FBX [CreateLoaders] initialState)) = Requested
   \<and> fst (loadTexture FBX 3 gearTexture
            (run FBX [CreateLoaders, LoadTexture 1 gearTexture,
                      TextureFailed 2 gearTexture None None None] initialState))
       = Requested
   \<and> fst (loadTexture FBX 1 gearTexture initialState) = Rejected
   \<and> fst (loadTexture FBX 2 gearTexture (snd (loadTexture FBX 1 gearTexture initialState)))
       = Rejected
   \<and> fst (loadTexture FBX 2 gearTexture
            (snd (loadTexture FBX 1 gearTexture (run FBX [CreateLoaders] initialState))))
       = Requested
   \<and> textureCache (run FBX [CreateLoaders, LoadTexture 1 gearTexture, LoadTexture 2 gearTexture,
                             TextureLoaded 3 gearTexture 7 None None None,
                             TextureLoaded 4 gearTexture 8 None None None] initialState)
        gearTexture = Some 8"
  by (simp add: run_def initialState_def nullMetric_def tracking_defs Let_def)

section \<open>The debug trace\<close>

lemma push_length:
  "length (textureDebug (pushTextureDebug entry s)) = min 50 (length (textureDebug s)) + 1"
  by (simp add: pushTextureDebug_def sliceLast_def)

lemma loaded_length:
  "length (textureDebug (step GLB (TextureLoaded now p texture probe pKey v) s))
     = min 50 (length (textureDebug s)) + 1"
proof -
  have "textureDebug (markTextureLoadEnd now p probe s') = textureDebug s'" for s'
    by (simp add: markTextureLoadEnd_def recordAssetSize_def commitAssetSize_def
        updateTotalSizeMetric_def Let_def split: option.splits)
  then show ?thesis
    by (simp add: onTextureLoaded_glb_def push_length)
qed

lemma replicate_length:
  "length (textureDebug (run GLB (replicate n (TextureLoaded now p texture probe pKey v)) s))
     = (if n = 0 then length (textureDebug s) else min 51 (length (textureDebug s) + n))"
proof (induction n arbitrary: s)
  case 0
  show ?case by (simp add: run_def)
next
  case (Suc n)
  have "run GLB (replicate (Suc n) (TextureLoaded now p texture probe pKey v)) s
          = run GLB (replicate n (TextureLoaded now p texture probe pKey v))
              (step GLB (TextureLoaded now p texture probe pKey v) s)"
    by (simp add: run_def)
  then show ?case
    by (simp add: Suc.IH loaded_length del: step.simps replicate.simps) (auto simp: min_def)
qed

text \<open>
  C10 at 51 pushes: after 51 texture loads have completed in the GLB build, the trace
  holds 51 entries. \<open>pushTextureDebug\<close> keeps the last 50 entries of the trace and
  appends the new one.
\<close>

theorem textureDebug_holds_51:
  "length (textureDebug
     (run GLB (replicate 51 (TextureLoaded 0 ''model_MatMetal_ORM.ktx2'' 1 None None (Some ''MatMetal'')))
        initialState)) = 51"
  by (simp add: replicate_length initialState_def del: replicate.simps)


end
